theory Spec2Isabelle
  imports Main "HOL-Library.Word" "HOL-Library.Multiset" "HOL-Library.Log_Nat"
begin

unbundle bit_operations_syntax

chapter \<open>The embedding\<close>

section \<open>Errors, panics and text helpers\<close>

text \<open>
  Go errors are values. \<^verbatim>\<open>Errorf msg\<close> is the error built by \<^verbatim>\<open>fmt.Errorf(msg)\<close>,
  \<^verbatim>\<open>Wrapf msg e\<close> the one built by \<^verbatim>\<open>fmt.Errorf(msg + ": %w", e)\<close>, \<^verbatim>\<open>NumError\<close> is
  \<^verbatim>\<open>strconv.NumError\<close>, \<^verbatim>\<open>ActionError\<close> is \<^verbatim>\<open>uniresp.NewActionError(msg)\<close>, and
  \<^verbatim>\<open>OsError\<close> and \<^verbatim>\<open>BrokerError\<close> stand for what the operating system and the
  message broker report. \<^verbatim>\<open>ErrRowsRangeOutOfConc\<close> is the sentinel of package mango.
\<close>

datatype num_err = ErrSyntax | ErrRange

datatype error =
    ErrRowsRangeOutOfConc
  | Errorf string
  | Wrapf string error
  | NumError string string num_err
  | ActionError string
  | OsError string
  | BrokerError string

text \<open>A Go function either panics or returns.\<close>

datatype 'a outcome = Panic string | Returns 'a

text \<open>\<^verbatim>\<open>strings.Join(elems, sep)\<close>\<close>

fun Join :: "string list \<Rightarrow> string \<Rightarrow> string" where
  "Join [] sep = []"
| "Join [x] sep = x"
| "Join (x # y # ys) sep = x @ sep @ Join (y # ys) sep"

text \<open>Decimal digits of a natural number, and \<^verbatim>\<open>strconv.Itoa\<close>.\<close>

fun nat_digits :: "nat \<Rightarrow> string" where
  "nat_digits n =
     (if n < 10 then [char_of (48 + n)]
      else nat_digits (n div 10) @ [char_of (48 + n mod 10)])"

definition Itoa :: "int \<Rightarrow> string" where
  "Itoa i = (if i < 0 then CHR ''-'' # nat_digits (nat (- i)) else nat_digits (nat i))"

section \<open>Collocation counter table (package fcoll)\<close>

text \<open>
  \<^verbatim>\<open>CTItem\<close> is one row of the counter table. \<^verbatim>\<open>Freq\<close> is a Go \<^verbatim>\<open>int64\<close>: a 64-bit
  word whose addition wraps around.
\<close>

record CTItem =
  Lemma :: string
  PLemma :: string
  Deprel :: string
  Upos :: string
  PUpos :: string
  Freq :: "64 word"

text \<open>\<^verbatim>\<open>type CounterTable map[string]*CTItem\<close>: every key owns the item it points to.\<close>

type_synonym CounterTable = "string \<rightharpoonup> CTItem"

text \<open>\<^verbatim>\<open>fmt.Sprintf("%s:%s:%s:%s:%s", lemma, upos, deprel, pLemma, pUpos)\<close>\<close>

definition mkKey :: "string \<Rightarrow> string \<Rightarrow> string \<Rightarrow> string \<Rightarrow> string \<Rightarrow> string" where
  "mkKey lemma upos pLemma pUpos deprel =
     lemma @ '':'' @ upos @ '':'' @ deprel @ '':'' @ pLemma @ '':'' @ pUpos"

text \<open>
  \<^verbatim>\<open>Add\<close> looks the key up, stores a fresh item (with \<^verbatim>\<open>Freq\<close> zero) when the key is
  absent, and adds \<^verbatim>\<open>val\<close> to the \<^verbatim>\<open>Freq\<close> of the item stored under the key.
\<close>

definition Add ::
  "CounterTable \<Rightarrow> string \<Rightarrow> string \<Rightarrow> string \<Rightarrow> string \<Rightarrow> string \<Rightarrow> 64 word \<Rightarrow> CounterTable" where
  "Add table lemma upos pLemma pUpos deprel val =
     (let key = mkKey lemma upos pLemma pUpos deprel;
          v = (case table key of
                 None \<Rightarrow> \<lparr>Lemma = lemma, PLemma = pLemma, Deprel = deprel,
                          Upos = upos, PUpos = pUpos, Freq = 0\<rparr>
               | Some v \<Rightarrow> v)
      in table(key \<mapsto> v\<lparr>Freq := Freq v + val\<rparr>))"

text \<open>A field free of the separator the key is built with.\<close>

definition colon_free :: "string \<Rightarrow> bool" where
  "colon_free s = (CHR '':'' \<notin> set s)"

section \<open>Concordance wrappers of the corpus engine (package mango)\<close>

text \<open>
  What the C functions \<^verbatim>\<open>conc_examples\<close> and \<^verbatim>\<open>conc_examples_with_coll_phrase\<close> hand
  back: \<^verbatim>\<open>ans_err\<close> is \<^verbatim>\<open>None\<close> for a null pointer, \<^verbatim>\<open>ans_value\<close> holds the
  \<^verbatim>\<open>ans.size\<close> lines, \<^verbatim>\<open>ans_aligned\<close> is \<^verbatim>\<open>None\<close> for a null pointer.
\<close>

record ConcExamples =
  ans_err :: "string option"
  ans_errorCode :: int
  ans_value :: "string list"
  ans_aligned :: "string list option"
  ans_concSize :: int
  ans_corpusSize :: int

text \<open>
  The engine is outside the repository: a call is the list of its C string arguments and
  the list of its integer arguments, in the order of the call.
\<close>

type_synonym conc_engine = "string list \<Rightarrow> int list \<Rightarrow> ConcExamples"

record GoConcordance =
  Lines :: "string list"
  AlignedLines :: "string list option"
  ConcSize :: int
  CorpusSize :: int

definition MaxRecordsInternalLimit :: nat where
  "MaxRecordsInternalLimit = 1000"

text \<open>\<^verbatim>\<open>if !collections.SliceContains(refs, "#") { refs = append([]string{"#"}, refs...) }\<close>\<close>

definition with_hash_ref :: "string list \<Rightarrow> string list" where
  "with_hash_ref refs = (if ''#'' \<in> set refs then refs else ''#'' # refs)"

text \<open>
  The part both wrappers share after the engine call: the error branch first (the
  sentinel for error code 1, the engine's message otherwise), then the copy of the
  non-empty lines. The lines are read through an array type of
  \<^verbatim>\<open>MaxRecordsInternalLimit\<close> entries, so an index beyond it panics.
\<close>

definition conc_result ::
  "GoConcordance \<Rightarrow> ConcExamples \<Rightarrow> (GoConcordance \<times> error option) outcome" where
  "conc_result ret ans =
     (case ans_err ans of
        Some msg \<Rightarrow>
          (if ans_errorCode ans = 1 then Returns (ret, Some ErrRowsRangeOutOfConc)
           else Returns (ret, Some (Errorf msg)))
      | None \<Rightarrow>
          (if length (ans_value ans) > MaxRecordsInternalLimit
           then Panic ''index out of range''
           else Returns
             (ret\<lparr>Lines := filter (\<lambda>str. length str > 0) (ans_value ans),
                  AlignedLines :=
                    map_option (filter (\<lambda>str. length str > 0)) (ans_aligned ans)\<rparr>,
              None)))"

definition GetConcordance ::
  "conc_engine \<Rightarrow> string \<Rightarrow> string \<Rightarrow> string \<Rightarrow> string list \<Rightarrow> string list \<Rightarrow> string list \<Rightarrow>
   int \<Rightarrow> int \<Rightarrow> int \<Rightarrow> string \<Rightarrow> (GoConcordance \<times> error option) outcome" where
  "GetConcordance conc_examples RefsEndMark corpusPath query attrs structs refs
       fromLine maxItems maxContext viewContextStruct =
     (if fromLine < 0 then Panic ''GetConcordance - invalid fromLine value''
      else if maxItems < 0 then Panic ''GetConcordance - invalid maxItems value''
      else if maxContext < 0 then Panic ''GetConcordance - invalid maxContext value''
      else
        let ans = conc_examples
                    [corpusPath, query, Join attrs '','', Join structs '','',
                     Join (with_hash_ref refs) '','', RefsEndMark, viewContextStruct]
                    [fromLine, maxItems, maxContext];
            ret = \<lparr>Lines = [], AlignedLines = None,
                   ConcSize = ans_concSize ans, CorpusSize = ans_corpusSize ans\<rparr>
        in conc_result ret ans)"

text \<open>
  \<^verbatim>\<open>GetConcordanceWithCollPhrase\<close> has no checks of its own before the engine call;
  \<^verbatim>\<open>make([]string, 0, maxItems)\<close> after it panics for a negative \<^verbatim>\<open>maxItems\<close>.
\<close>

definition GetConcordanceWithCollPhrase ::
  "conc_engine \<Rightarrow> string \<Rightarrow> string \<Rightarrow> string \<Rightarrow> string \<Rightarrow> int \<Rightarrow> int \<Rightarrow>
   string list \<Rightarrow> string list \<Rightarrow> string list \<Rightarrow>
   int \<Rightarrow> int \<Rightarrow> int \<Rightarrow> string \<Rightarrow> (GoConcordance \<times> error option) outcome" where
  "GetConcordanceWithCollPhrase conc_examples_with_coll_phrase RefsEndMark corpusPath query
       collQuery lftCtx rgtCtx attrs structs refs fromLine maxItems maxContext
       viewContextStruct =
     (let ans = conc_examples_with_coll_phrase
                  [corpusPath, query, collQuery @ '';'', Itoa lftCtx, Itoa rgtCtx,
                   Join attrs '','', Join structs '','', Join (with_hash_ref refs) '','',
                   RefsEndMark, viewContextStruct]
                  [fromLine, maxItems, maxContext];
          ret = \<lparr>Lines = [], AlignedLines = None,
                 ConcSize = ans_concSize ans, CorpusSize = 0\<rparr>
      in if maxItems < 0 then Panic ''makeslice: cap out of range''
         else conc_result ret ans)"

section \<open>HTTP requests and responses (gin, uniresp)\<close>

text \<open>
  A request carries the route parameters (\<^verbatim>\<open>ctx.Param\<close>) and the URL query values
  (\<^verbatim>\<open>ctx.Request.URL.Query()\<close>, a map from a key to the list of its values).
\<close>

record request =
  params :: "string \<rightharpoonup> string"
  urlquery :: "string \<rightharpoonup> string list"

definition Param :: "request \<Rightarrow> string \<Rightarrow> string" where
  "Param req k = (case params req k of None \<Rightarrow> [] | Some v \<Rightarrow> v)"

definition Has :: "request \<Rightarrow> string \<Rightarrow> bool" where
  "Has req k = (urlquery req k \<noteq> None)"

definition Get :: "request \<Rightarrow> string \<Rightarrow> string" where
  "Get req k = (case urlquery req k of Some (v # vs) \<Rightarrow> v | _ \<Rightarrow> [])"

definition StatusConflict :: nat where "StatusConflict = 409"
definition StatusUnprocessableEntity :: nat where "StatusUnprocessableEntity = 422"
definition StatusInternalServerError :: nat where "StatusInternalServerError = 500"

text \<open>
  \<^verbatim>\<open>uniresp.WriteJSONErrorResponse(w, err, status)\<close> and \<^verbatim>\<open>uniresp.WriteJSONResponse(w, v)\<close>.
\<close>

datatype 'a response = ErrorResponse error nat | JSONResponse 'a

text \<open>
  What a handler does with a request: it writes one response and returns, it panics, or
  it never returns (it waits for something that does not come).
\<close>

datatype 'a handled = Responds "'a response" | Panics string | Blocks

text \<open>
  \<^verbatim>\<open>strconv.Atoi\<close>: an optional sign, then one or more decimal digits; a value outside
  the 64-bit \<^verbatim>\<open>int\<close> is a range error.
\<close>

definition digit_val :: "char \<Rightarrow> nat option" where
  "digit_val c =
     (let n = (of_char c :: nat) in if 48 \<le> n \<and> n \<le> 57 then Some (n - 48) else None)"

fun digits_val :: "nat \<Rightarrow> string \<Rightarrow> nat option" where
  "digits_val acc [] = Some acc"
| "digits_val acc (c # cs) =
     (case digit_val c of None \<Rightarrow> None | Some d \<Rightarrow> digits_val (acc * 10 + d) cs)"

definition Atoi :: "string \<Rightarrow> error + int" where
  "Atoi s =
     (let (neg, body) =
            (case s of
               [] \<Rightarrow> (False, [])
             | c # cs \<Rightarrow> if c = CHR ''-'' then (True, cs)
                        else if c = CHR ''+'' then (False, cs) else (False, s))
      in if body = [] then Inl (NumError ''Atoi'' s ErrSyntax)
         else case digits_val 0 body of
                None \<Rightarrow> Inl (NumError ''Atoi'' s ErrSyntax)
              | Some n \<Rightarrow>
                  let v = (if neg then - int n else int n)
                  in if - (2 ^ 63) \<le> v \<and> v < 2 ^ 63 then Inr v
                     else Inl (NumError ''Atoi'' s ErrRange))"

section \<open>The job queue (package rdb) and the frequency results (package results)\<close>

record FreqDistribArgs =
  CorpusPath :: string
  SubcPath :: string
  Query :: string
  Crit :: string
  Limit :: int
  FreqLimit :: int
  MaxResults :: int

record CalcCollFreqDataArgs =
  cc_CorpusPath :: string
  cc_SubcPath :: string
  cc_Attrs :: "string list"

text \<open>
  \<^verbatim>\<open>rdb.Query{Func, Args}\<close>; \<^verbatim>\<open>Args\<close> is the JSON text of one of the two argument
  structs, kept here as the struct it encodes, or nil.
\<close>

datatype query_args = FreqArgs FreqDistribArgs | CollFreqArgs CalcCollFreqDataArgs | NilArgs

record rdb_Query =
  Func :: string
  Args :: query_args

text \<open>
  \<^verbatim>\<open>json.Marshal\<close> of these structs (strings, integers and string lists) has no failing
  case; the handlers' error branch on it is kept.
\<close>

definition json_Marshal :: "query_args \<Rightarrow> error + query_args" where
  "json_Marshal a = Inr a"

text \<open>
  The channel \<^verbatim>\<open>PublishQuery\<close> returns: it delivers one envelope, or nothing ever (the
  adapter promises no worker liveness).
\<close>

datatype 'e future = Resolves 'e | NeverResolves

text \<open>
  The sources show of \<^verbatim>\<open>results.FreqDistrib\<close> its \<^verbatim>\<open>Freqs\<close> slice and of an item its
  \<^verbatim>\<open>Freq\<close>; \<^verbatim>\<open>Word\<close> and \<^verbatim>\<open>Norm\<close> are the item's other components as the
  specification lists them. \<^verbatim>\<open>ItemFreq\<close> is the item's \<^verbatim>\<open>Freq\<close>.
\<close>

record FreqDistribItem =
  Word :: string
  ItemFreq :: int
  Norm :: int

record FreqDistrib =
  Freqs :: "FreqDistribItem list"

text \<open>
  The state the handlers change: the calls \<^verbatim>\<open>PublishQuery\<close> has received and the
  messages logged.
\<close>

record broker =
  published :: "rdb_Query list"
  logged :: "string list"

text \<open>
  What the handlers of both packages are given: \<^verbatim>\<open>GetRegistryPath\<close> and
  \<^verbatim>\<open>SplitCorporaDir\<close> are the configuration's, \<^verbatim>\<open>PublishQuery\<close> is the queue
  adapter's, and \<^verbatim>\<open>schedule\<close> decides in which order the goroutines of a gather run.
\<close>

record 'e actions =
  GetRegistryPath :: "string \<Rightarrow> string"
  SplitCorporaDir :: string
  PublishQuery :: "rdb_Query \<Rightarrow> error + 'e future"
  schedule :: "nat list"

text \<open>
  Package query's handlers also use \<^verbatim>\<open>OpenSplitCorpus\<close>, the two deserialisers and
  \<^verbatim>\<open>MergeWith\<close>, functions of packages corpus, rdb and results that are taken as given.
  \<^verbatim>\<open>spare\<close> holds the slots of the backing array behind the merged \<^verbatim>\<open>Freqs\<close> slice
  (between its length and its capacity; \<^verbatim>\<open>None\<close> is a nil pointer).
\<close>

record 'e query_env = "'e actions" +
  OpenSplitCorpus :: "string \<Rightarrow> string \<Rightarrow> error + string list"
  DeserializeFreqDistribResult :: "'e \<Rightarrow> FreqDistrib \<times> error option"
  DeserializeTextTypesResult :: "'e \<Rightarrow> FreqDistrib \<times> error option"
  MergeWith :: "FreqDistrib \<Rightarrow> FreqDistrib \<Rightarrow> FreqDistrib"
  spare :: "FreqDistribItem option list"

text \<open>
  Modelled from the spec: \<^verbatim>\<open>results.FreqDistrib.MergeWith\<close> is not among the sources.
  The item-level merge is a union by key (the word, compared exactly) that sums
  frequency and norm on a collision and appends an item with a new key.
\<close>

fun merge_item :: "FreqDistribItem list \<Rightarrow> FreqDistribItem \<Rightarrow> FreqDistribItem list" where
  "merge_item [] v2 = [v2]"
| "merge_item (v1 # vs) v2 =
     (if Word v1 = Word v2
      then v1\<lparr>ItemFreq := ItemFreq v1 + ItemFreq v2, Norm := Norm v1 + Norm v2\<rparr> # vs
      else v1 # merge_item vs v2)"

definition spec_MergeWith :: "FreqDistrib \<Rightarrow> FreqDistrib \<Rightarrow> FreqDistrib" where
  "spec_MergeWith res other = res\<lparr>Freqs := foldl merge_item (Freqs res) (Freqs other)\<rparr>"

subsection \<open>Single-shard handlers\<close>

text \<open>The \<^verbatim>\<open>flimit\<close> (or \<^verbatim>\<open>maxItems\<close>) parameter: the default when absent, else \<^verbatim>\<open>Atoi\<close>.\<close>

definition int_param :: "request \<Rightarrow> string \<Rightarrow> int \<Rightarrow> error + int" where
  "int_param req name dflt = (if Has req name then Atoi (Get req name) else Inr dflt)"

text \<open>
  After the arguments are built: marshal, publish, wait for the envelope, deserialise,
  respond. Every failure is an internal server error.
\<close>

definition publish_and_wait ::
  "'e query_env \<Rightarrow> ('e \<Rightarrow> FreqDistrib \<times> error option) \<Rightarrow> FreqDistribArgs \<Rightarrow> broker \<Rightarrow>
   FreqDistrib handled \<times> broker" where
  "publish_and_wait env deserialize freqArgs b =
     (case json_Marshal (FreqArgs freqArgs) of
        Inl err \<Rightarrow> (Responds (ErrorResponse err StatusInternalServerError), b)
      | Inr args \<Rightarrow>
          let query = \<lparr>Func = ''freqDistrib'', Args = args\<rparr>;
              b' = b\<lparr>published := published b @ [query]\<rparr>
          in case PublishQuery env query of
               Inl err \<Rightarrow> (Responds (ErrorResponse err StatusInternalServerError), b')
             | Inr NeverResolves \<Rightarrow> (Blocks, b')
             | Inr (Resolves rawResult) \<Rightarrow>
                 (case deserialize rawResult of
                    (result, Some err) \<Rightarrow>
                      (Responds (ErrorResponse err StatusInternalServerError), b')
                  | (result, None) \<Rightarrow> (Responds (JSONResponse result), b')))"

definition FreqDistrib ::
  "'e query_env \<Rightarrow> request \<Rightarrow> broker \<Rightarrow> FreqDistrib handled \<times> broker" where
  "FreqDistrib env req b =
     (let q = Get req ''q''
      in case int_param req ''flimit'' 1 of
           Inl err \<Rightarrow> (Responds (ErrorResponse err StatusUnprocessableEntity), b)
         | Inr flimit \<Rightarrow>
             let corpusPath = GetRegistryPath env (Param req ''corpusId'')
             in publish_and_wait env (DeserializeFreqDistribResult env)
                  \<lparr>CorpusPath = corpusPath, SubcPath = [], Query = q,
                   Crit = ''lemma/e 0~0>0'', Limit = flimit, FreqLimit = 0, MaxResults = 0\<rparr>
                  b)"

definition TextTypes ::
  "'e query_env \<Rightarrow> request \<Rightarrow> broker \<Rightarrow> FreqDistrib handled \<times> broker" where
  "TextTypes env req b =
     (let q = Get req ''q'';
          attr = Get req ''attr''
      in case int_param req ''flimit'' 1 of
           Inl err \<Rightarrow> (Responds (ErrorResponse err StatusUnprocessableEntity), b)
         | Inr flimit \<Rightarrow>
             let corpusPath = GetRegistryPath env (Param req ''corpusId'');
                 freqArgs = \<lparr>CorpusPath = corpusPath, SubcPath = [], Query = q,
                             Crit = attr @ '' 0'', Limit = 0, FreqLimit = flimit,
                             MaxResults = 0\<rparr>;
                 freqArgs = (if Has req ''subc''
                             then freqArgs\<lparr>SubcPath := Get req ''subc''\<rparr> else freqArgs)
             in publish_and_wait env (DeserializeTextTypesResult env) freqArgs b)"

subsection \<open>Slices and the stable sort\<close>

text \<open>
  \<^verbatim>\<open>sort.SliceStable(x, less)\<close> sorts by \<^verbatim>\<open>less\<close> and keeps the order of elements neither
  of which is less than the other. It is of Go's library; the stable insertion sort
  stands for it (a stable sort's result is determined by the order \<^verbatim>\<open>less\<close> gives).
\<close>

fun insert_stable :: "('a \<Rightarrow> 'a \<Rightarrow> bool) \<Rightarrow> 'a \<Rightarrow> 'a list \<Rightarrow> 'a list" where
  "insert_stable lessf x [] = [x]"
| "insert_stable lessf x (y # ys) =
     (if lessf y x then y # insert_stable lessf x ys else x # y # ys)"

definition SliceStable :: "('a \<Rightarrow> 'a \<Rightarrow> bool) \<Rightarrow> 'a list \<Rightarrow> 'a list" where
  "SliceStable lessf xs = foldr (insert_stable lessf) xs []"

text \<open>
  The slice expression \<^verbatim>\<open>s[:h]\<close> on a slice of pointers whose \<^verbatim>\<open>len\<close> elements are
  \<^verbatim>\<open>elems\<close> and whose backing array goes on with the slots \<^verbatim>\<open>spare_slots\<close> up to the
  capacity: Go panics unless \<^verbatim>\<open>0 \<le> h \<le> cap(s)\<close>, and otherwise the result has length
  \<^verbatim>\<open>h\<close>, reaching into the spare slots when \<^verbatim>\<open>h\<close> exceeds the length.
\<close>

definition reslice_to :: "'a list \<Rightarrow> 'a option list \<Rightarrow> int \<Rightarrow> 'a option list outcome" where
  "reslice_to elems spare_slots h =
     (if h < 0 \<or> int (length elems + length spare_slots) < h
      then Panic ''slice bounds out of range''
      else Returns (take (nat h) (map Some elems @ spare_slots)))"

subsection \<open>The scatter-gather handlers\<close>

text \<open>
  The state of one gather: the \<^verbatim>\<open>sync.WaitGroup\<close> counter and the accumulator
  \<^verbatim>\<open>result\<close> the goroutines merge into under \<^verbatim>\<open>mergedFreqLock\<close>.
\<close>

record gather =
  wg :: int
  result :: FreqDistrib

text \<open>
  The publishing loop over \<^verbatim>\<open>sc.Subcorpora\<close>. A failed \<^verbatim>\<open>PublishQuery\<close> is logged and
  nothing else happens for that shard; a successful one starts a goroutine on the
  returned channel. The loop hands back the channels of the goroutines started, or the
  error of \<^verbatim>\<open>json.Marshal\<close>, on which the handler responds and returns at once.
\<close>

fun publish_shards ::
  "'e query_env \<Rightarrow> (string \<Rightarrow> FreqDistribArgs) \<Rightarrow> string list \<Rightarrow> broker \<Rightarrow> 'e future list \<Rightarrow>
   (error + 'e future list) \<times> broker" where
  "publish_shards env mkArgs [] b started = (Inr started, b)"
| "publish_shards env mkArgs (subc # rest) b started =
     (case json_Marshal (FreqArgs (mkArgs subc)) of
        Inl err \<Rightarrow> (Inl err, b)
      | Inr args \<Rightarrow>
          let query = \<lparr>Func = ''freqDistrib'', Args = args\<rparr>;
              b' = b\<lparr>published := published b @ [query]\<rparr>
          in case PublishQuery env query of
               Inl err \<Rightarrow>
                 publish_shards env mkArgs rest
                   (b'\<lparr>logged := logged b' @ [''failed to publish query'']\<rparr>) started
             | Inr wait \<Rightarrow> publish_shards env mkArgs rest b' (started @ [wait]))"

text \<open>
  The body of a goroutine once its channel has delivered \<^verbatim>\<open>tmp\<close>: deserialise, log a
  deserialisation error, merge under the lock, \<^verbatim>\<open>wg.Done()\<close>.
\<close>

definition shard_task ::
  "'e query_env \<Rightarrow> ('e \<Rightarrow> FreqDistrib \<times> error option) \<Rightarrow> 'e \<Rightarrow> gather \<times> broker \<Rightarrow>
   gather \<times> broker" where
  "shard_task env deserialize tmp gb =
     (let (g, b) = gb;
          (resultNext, err) = deserialize tmp;
          b' = (case err of
                  Some e \<Rightarrow> b\<lparr>logged := logged b @ [''failed to deserialize query'']\<rparr>
                | None \<Rightarrow> b)
      in (g\<lparr>result := MergeWith env (result g) resultNext, wg := wg g - 1\<rparr>, b'))"

text \<open>
  The goroutines whose channel delivers run to their end, one at a time through the
  lock, in an order the schedule picks: its next number, modulo the number of goroutines
  left, names the one to run next (the first one once the schedule is used up).
\<close>

function run_tasks :: "nat list \<Rightarrow> ('t \<Rightarrow> 's \<Rightarrow> 's) \<Rightarrow> 't list \<Rightarrow> 's \<Rightarrow> 's" where
  "run_tasks sched step [] s = s"
| "run_tasks [] step (t # ts) s = run_tasks [] step ts (step t s)"
| "run_tasks (k # ks) step (t # ts) s =
     (let i = k mod length (t # ts)
      in run_tasks ks step (take i (t # ts) @ drop (Suc i) (t # ts)) (step ((t # ts) ! i) s))"
  by pat_completeness auto
termination
  by (relation "measure (\<lambda>(sched, step, ts, s). length ts)") auto

text \<open>The envelopes of the channels that deliver.\<close>

fun delivered :: "'e future list \<Rightarrow> 'e list" where
  "delivered [] = []"
| "delivered (Resolves tmp # futs) = tmp # delivered futs"
| "delivered (NeverResolves # futs) = delivered futs"

text \<open>
  \<^verbatim>\<open>wg.Add(len(sc.Subcorpora))\<close>, the publishing loop, and \<^verbatim>\<open>wg.Wait()\<close>: the wait is
  over when the counter is zero after the goroutines have run; otherwise it never ends.
\<close>

definition scatter_gather ::
  "'e query_env \<Rightarrow> ('e \<Rightarrow> FreqDistrib \<times> error option) \<Rightarrow> (string \<Rightarrow> FreqDistribArgs) \<Rightarrow>
   string list \<Rightarrow> broker \<Rightarrow> (error + FreqDistrib option) \<times> broker" where
  "scatter_gather env deserialize mkArgs subcorpora b =
     (case publish_shards env mkArgs subcorpora b [] of
        (Inl err, b') \<Rightarrow> (Inl err, b')
      | (Inr started, b') \<Rightarrow>
          let g0 = \<lparr>wg = int (length subcorpora), result = \<lparr>Freqs = []\<rparr>\<rparr>;
              (g, b'') = run_tasks (schedule env) (shard_task env deserialize)
                           (delivered started) (g0, b')
          in (Inr (if wg g = 0 then Some (result g) else None), b''))"

definition FreqDistribParallel ::
  "'e query_env \<Rightarrow> request \<Rightarrow> broker \<Rightarrow> FreqDistrib handled \<times> broker" where
  "FreqDistribParallel env req b =
     (let q = Get req ''q'';
          corpusPath = GetRegistryPath env (Param req ''corpusId'')
      in case OpenSplitCorpus env (SplitCorporaDir env) corpusPath of
           Inl err \<Rightarrow> (Responds (ErrorResponse err StatusInternalServerError), b)
         | Inr subcorpora \<Rightarrow>
             (case int_param req ''flimit'' 1 of
                Inl err \<Rightarrow> (Responds (ErrorResponse err StatusUnprocessableEntity), b)
              | Inr flimit \<Rightarrow>
                  (case scatter_gather env (DeserializeFreqDistribResult env)
                          (\<lambda>subc. \<lparr>CorpusPath = corpusPath, SubcPath = subc, Query = q,
                                   Crit = ''lemma/e 0~0>0'', Limit = flimit, FreqLimit = 0,
                                   MaxResults = 0\<rparr>)
                          subcorpora b of
                     (Inl err, b') \<Rightarrow>
                       (Responds (ErrorResponse err StatusInternalServerError), b')
                   | (Inr None, b') \<Rightarrow> (Blocks, b')
                   | (Inr (Some res), b') \<Rightarrow> (Responds (JSONResponse res), b'))))"

text \<open>
  The end of \<^verbatim>\<open>TextTypesParallel\<close>: the stable sort by descending \<^verbatim>\<open>Freq\<close>, then
  \<^verbatim>\<open>result.Freqs[:cut]\<close> with \<^verbatim>\<open>cut\<close> the \<^verbatim>\<open>maxItems\<close> given, or 100 when it is zero.
\<close>

definition sort_and_cut ::
  "FreqDistribItem list \<Rightarrow> FreqDistribItem option list \<Rightarrow> int \<Rightarrow>
   FreqDistribItem option list outcome" where
  "sort_and_cut freqs spare_slots maxItems =
     (let sorted = SliceStable (\<lambda>i j. ItemFreq i > ItemFreq j) freqs;
          cut = (if maxItems = 0 then 100 else maxItems)
      in reslice_to sorted spare_slots cut)"

definition TextTypesParallel ::
  "'e query_env \<Rightarrow> request \<Rightarrow> broker \<Rightarrow> FreqDistribItem option list handled \<times> broker" where
  "TextTypesParallel env req b =
     (let q = Get req ''q'';
          attr = Get req ''attr'';
          corpusPath = GetRegistryPath env (Param req ''corpusId'')
      in case OpenSplitCorpus env (SplitCorporaDir env) corpusPath of
           Inl err \<Rightarrow> (Responds (ErrorResponse err StatusInternalServerError), b)
         | Inr subcorpora \<Rightarrow>
             (case int_param req ''flimit'' 1 of
                Inl err \<Rightarrow> (Responds (ErrorResponse err StatusUnprocessableEntity), b)
              | Inr flimit \<Rightarrow>
                  (case int_param req ''maxItems'' 0 of
                     Inl err \<Rightarrow> (Responds (ErrorResponse err StatusUnprocessableEntity), b)
                   | Inr maxItems \<Rightarrow>
                       (case scatter_gather env (DeserializeTextTypesResult env)
                               (\<lambda>subc. \<lparr>CorpusPath = corpusPath, SubcPath = subc, Query = q,
                                        Crit = attr @ '' 0'', Limit = 0, FreqLimit = flimit,
                                        MaxResults = maxItems\<rparr>)
                               subcorpora b of
                          (Inl err, b') \<Rightarrow>
                            (Responds (ErrorResponse err StatusInternalServerError), b')
                        | (Inr None, b') \<Rightarrow> (Blocks, b')
                        | (Inr (Some res), b') \<Rightarrow>
                            (case sort_and_cut (Freqs res) (spare env) maxItems of
                               Panic msg \<Rightarrow> (Panics msg, b')
                             | Returns freqs \<Rightarrow> (Responds (JSONResponse freqs), b'))))))"

subsection \<open>Sample inputs\<close>

text \<open>
  A configuration to run the handlers on: the envelope a channel delivers is the pair
  the deserialisers return for it, \<^verbatim>\<open>shards\<close> says for every shard path what
  \<^verbatim>\<open>PublishQuery\<close> does with its job, and jobs for any other path are refused.
\<close>

type_synonym envelope = "FreqDistrib \<times> error option"

definition query_subc :: "rdb_Query \<Rightarrow> string" where
  "query_subc q =
     (case Args q of FreqArgs a \<Rightarrow> SubcPath a | CollFreqArgs c \<Rightarrow> cc_SubcPath c | NilArgs \<Rightarrow> [])"

definition sample_env ::
  "(error + string list) \<Rightarrow> (string \<times> (error + envelope future)) list \<Rightarrow>
   FreqDistribItem option list \<Rightarrow> nat list \<Rightarrow> envelope query_env" where
  "sample_env opened shards spare_slots sched =
     \<lparr>GetRegistryPath = (\<lambda>corpusId. ''/corpora/registry/'' @ corpusId),
      SplitCorporaDir = ''/corpora/split'',
      PublishQuery = (\<lambda>q. case map_of shards (query_subc q) of
                             Some r \<Rightarrow> r
                           | None \<Rightarrow> Inl (BrokerError ''no such shard'')),
      schedule = sched,
      OpenSplitCorpus = (\<lambda>dir path. opened),
      DeserializeFreqDistribResult = (\<lambda>tmp. tmp),
      DeserializeTextTypesResult = (\<lambda>tmp. tmp),
      MergeWith = spec_MergeWith,
      spare = spare_slots\<rparr>"

definition item :: "string \<Rightarrow> int \<Rightarrow> FreqDistribItem" where
  "item w f = \<lparr>Word = w, ItemFreq = f, Norm = 0\<rparr>"

definition sample_request :: "(string \<times> string list) list \<Rightarrow> request" where
  "sample_request qs = \<lparr>params = [''corpusId'' \<mapsto> ''syn''], urlquery = map_of qs\<rparr>"

definition idle :: broker where
  "idle = \<lparr>published = [], logged = []\<rparr>"

section \<open>Files and directories\<close>

text \<open>
  What the operating system keeps under a path: a directory with the names of its
  entries, or a regular file with its bytes.
\<close>

type_synonym byte = "8 word"

datatype node = Dir "string list" | RegularFile "byte list"

type_synonym fsys = "string \<rightharpoonup> node"

text \<open>The state the handlers of package edit change: the broker's and the file system.\<close>

record world = broker +
  fs :: fsys

text \<open>
  \<^verbatim>\<open>filepath.Base\<close>: the last element of the path, after trailing separators are dropped.
\<close>

definition filepath_Base :: "string \<Rightarrow> string" where
  "filepath_Base path =
     (if path = [] then ''.''
      else let stripped = dropWhile (\<lambda>c. c = CHR ''/'') (rev path);
               last_elem = rev (takeWhile (\<lambda>c. c \<noteq> CHR ''/'') stripped)
           in if last_elem = [] then ''/'' else last_elem)"

text \<open>
  \<^verbatim>\<open>filepath.Join\<close>: the non-empty elements, separated by a slash. Go then applies
  \<^verbatim>\<open>filepath.Clean\<close>, which leaves a path alone that has no empty, \<^verbatim>\<open>.\<close> or \<^verbatim>\<open>..\<close>
  element and no trailing slash; the model leaves the cleaning out.
\<close>

definition filepath_Join :: "string list \<Rightarrow> string" where
  "filepath_Join elems = Join (filter (\<lambda>e. e \<noteq> []) elems) ''/''"

text \<open>The directory a path's last element lives in, and that element.\<close>

definition parent_of :: "string \<Rightarrow> string" where
  "parent_of path = rev (drop 1 (dropWhile (\<lambda>c. c \<noteq> CHR ''/'') (rev path)))"

definition name_of :: "string \<Rightarrow> string" where
  "name_of path = rev (takeWhile (\<lambda>c. c \<noteq> CHR ''/'') (rev path))"

text \<open>
  The system calls the code makes. \<^verbatim>\<open>fault\<close> gives the error, if any, the operating
  system reports for a path (permissions, a failing device).

  \<^verbatim>\<open>fs.IsDir\<close> (cnc-gokit): a missing path is no directory and no error.
\<close>

definition fs_IsDir :: "(string \<Rightarrow> error option) \<Rightarrow> fsys \<Rightarrow> string \<Rightarrow> error + bool" where
  "fs_IsDir fault files path =
     (case fault path of
        Some err \<Rightarrow> Inl err
      | None \<Rightarrow> Inr (case files path of Some (Dir entries) \<Rightarrow> True | _ \<Rightarrow> False))"

definition os_ReadDir ::
  "(string \<Rightarrow> error option) \<Rightarrow> fsys \<Rightarrow> string \<Rightarrow> error + string list" where
  "os_ReadDir fault files path =
     (case fault path of
        Some err \<Rightarrow> Inl err
      | None \<Rightarrow>
          (case files path of
             Some (Dir entries) \<Rightarrow> Inr entries
           | Some (RegularFile content) \<Rightarrow> Inl (OsError ''not a directory'')
           | None \<Rightarrow> Inl (OsError ''no such file or directory'')))"

text \<open>
  Adding an entry under a path: the parent must be a directory; its listing gains the
  name.
\<close>

definition add_entry :: "fsys \<Rightarrow> string \<Rightarrow> node \<Rightarrow> fsys option" where
  "add_entry files path n =
     (case files (parent_of path) of
        Some (Dir entries) \<Rightarrow>
          Some (files(parent_of path \<mapsto> Dir (entries @ [name_of path]), path \<mapsto> n))
      | _ \<Rightarrow> None)"

text \<open>\<^verbatim>\<open>os.Mkdir\<close>; the caller drops its error, so only the file system comes back.\<close>

definition os_Mkdir :: "(string \<Rightarrow> error option) \<Rightarrow> fsys \<Rightarrow> string \<Rightarrow> fsys" where
  "os_Mkdir fault files path =
     (case fault path of
        Some err \<Rightarrow> files
      | None \<Rightarrow>
          (case files path of
             Some n \<Rightarrow> files
           | None \<Rightarrow> (case add_entry files path (Dir []) of Some files' \<Rightarrow> files' | None \<Rightarrow> files)))"

text \<open>
  \<^verbatim>\<open>os.OpenFile(path, os.O_WRONLY|os.O_CREATE, 0644)\<close>: an existing file is opened as it
  is (no truncation), a missing one is created empty.
\<close>

definition os_OpenFile :: "(string \<Rightarrow> error option) \<Rightarrow> fsys \<Rightarrow> string \<Rightarrow> error + fsys" where
  "os_OpenFile fault files path =
     (case fault path of
        Some err \<Rightarrow> Inl err
      | None \<Rightarrow>
          (case files path of
             Some (RegularFile content) \<Rightarrow> Inr files
           | Some (Dir entries) \<Rightarrow> Inl (OsError ''is a directory'')
           | None \<Rightarrow>
               (case add_entry files path (RegularFile []) of
                  Some files' \<Rightarrow> Inr files'
                | None \<Rightarrow> Inl (OsError ''no such file or directory''))))"

text \<open>
  \<^verbatim>\<open>file.Write(b)\<close> on a file just opened: the bytes go to offset 0, over what was there,
  and what lies behind them stays. \<^verbatim>\<open>wfault\<close> gives the error of a failing write.
\<close>

definition file_Write ::
  "(string \<Rightarrow> error option) \<Rightarrow> fsys \<Rightarrow> string \<Rightarrow> byte list \<Rightarrow> error + fsys" where
  "file_Write wfault files path b =
     (case wfault path of
        Some err \<Rightarrow> Inl err
      | None \<Rightarrow>
          (case files path of
             Some (RegularFile content) \<Rightarrow>
               Inr (files(path \<mapsto> RegularFile (b @ drop (length b) content)))
           | _ \<Rightarrow> Inl (OsError ''bad file descriptor'')))"

section \<open>Floating point\<close>

text \<open>
  A finite \<^verbatim>\<open>float64\<close> is the rational number it stands for. \<^verbatim>\<open>f64_round\<close> is the
  rounding every \<^verbatim>\<open>float64\<close> operation ends with: to the nearest number with a 53-bit
  significand, ties to the even significand. Overflow and subnormal numbers are left
  out; the values met here lie between \<^verbatim>\<open>1e-8\<close> and \<^verbatim>\<open>2^63\<close>.
\<close>

definition round_half_even :: "rat \<Rightarrow> int" where
  "round_half_even x =
     (let f = \<lfloor>x\<rfloor>; d = x - of_int f
      in if d < 1 / 2 then f else if 1 / 2 < d then f + 1 else if even f then f else f + 1)"

text \<open>The exponent of a positive number: \<^verbatim>\<open>2 ^ ilog2 x \<le> x < 2 ^ (ilog2 x + 1)\<close>.\<close>

definition ilog2 :: "rat \<Rightarrow> int" where
  "ilog2 x =
     (if 1 \<le> x then int (floorlog 2 (nat \<lfloor>x\<rfloor>)) - 1
      else - int (floorlog 2 (nat \<lceil>1 / x\<rceil> - 1)))"

definition f64_round :: "rat \<Rightarrow> rat" where
  "f64_round x =
     (if x = 0 then 0
      else let u = 2 powi (ilog2 \<bar>x\<bar> - 52)
           in sgn x * of_int (round_half_even (\<bar>x\<bar> / u)) * u)"

text \<open>\<^verbatim>\<open>float64(i)\<close> of an integer and the quotient of two \<^verbatim>\<open>float64\<close>.\<close>

definition float64 :: "int \<Rightarrow> rat" where
  "float64 i = f64_round (of_int i)"

definition f64_div :: "rat \<Rightarrow> rat \<Rightarrow> rat" where
  "f64_div a b = f64_round (a / b)"

section \<open>Creating the shards (package edit)\<close>

definition maxSplitChunkSize :: int where
  "maxSplitChunkSize = 100000000"

record corpus_SplitCorpus =
  sc_CorpusPath :: string
  Subcorpora :: "string list"

text \<open>
  What package edit's handlers are given beside the shared part: the configuration's
  \<^verbatim>\<open>MultisampledCorporaDir\<close> and \<^verbatim>\<open>MultisampledSubcSize\<close>; the C function
  \<^verbatim>\<open>get_corpus_size\<close> (its error string, \<^verbatim>\<open>None\<close> for a null pointer, and its value);
  the faults of the operating system; \<^verbatim>\<open>DeserializeCollFreqDataResult\<close>, which gives
  \<^verbatim>\<open>resp.Err()\<close> and its own error; \<^verbatim>\<open>GetURLIntArgOrFail\<close>, which gives the value or the
  error response it has written; and \<^verbatim>\<open>MultisampleCorpus\<close>. The last three are not
  among the sources.
\<close>

record 'e edit_env = "'e actions" +
  MultisampledCorporaDir :: string
  MultisampledSubcSize :: int
  get_corpus_size :: "string \<Rightarrow> string option \<times> 64 word"
  os_fault :: "string \<Rightarrow> error option"
  write_fault :: "string \<Rightarrow> error option"
  DeserializeCollFreqDataResult :: "'e \<Rightarrow> error option \<times> error option"
  GetURLIntArgOrFail :: "request \<Rightarrow> string \<Rightarrow> int \<Rightarrow> (error \<times> nat) + int"
  MultisampleCorpus ::
    "fsys \<Rightarrow> string \<Rightarrow> string \<Rightarrow> int \<Rightarrow> int \<Rightarrow> (corpus_SplitCorpus \<times> error option) \<times> fsys"

definition splitCorpusExists ::
  "('e, 'x) edit_env_scheme \<Rightarrow> fsys \<Rightarrow> string \<Rightarrow> string \<Rightarrow> bool \<times> error option" where
  "splitCorpusExists env files subcBaseDir corpusPath =
     (let cname = filepath_Base corpusPath;
          path = filepath_Join [subcBaseDir, cname]
      in case fs_IsDir (os_fault env) files path of
           Inl err \<Rightarrow> (False, Some (Wrapf ''failed to determine split corpus existence'' err))
         | Inr isDir \<Rightarrow>
             if \<not> isDir then (False, None)
             else case os_ReadDir (os_fault env) files path of
                    Inl err \<Rightarrow>
                      (False, Some (Wrapf ''failed to determine split corpus existence'' err))
                  | Inr entries \<Rightarrow> (isDir \<and> length entries > 0, None))"

text \<open>
  Modelled from the spec: \<^verbatim>\<open>MultisampleCorpusExists\<close> is not among the sources. The
  specification gives multisampled sets the same existence rule as split sets: the
  directory named after the corpus exists and has at least one entry.
\<close>

definition MultisampleCorpusExists ::
  "('e, 'x) edit_env_scheme \<Rightarrow> fsys \<Rightarrow> string \<Rightarrow> string \<Rightarrow> bool \<times> error option" where
  "MultisampleCorpusExists env files subcBaseDir corpusPath =
     (let cname = filepath_Base corpusPath;
          path = filepath_Join [subcBaseDir, cname]
      in case fs_IsDir (os_fault env) files path of
           Inl err \<Rightarrow>
             (False, Some (Wrapf ''failed to determine multisampled corpus existence'' err))
         | Inr isDir \<Rightarrow>
             if \<not> isDir then (False, None)
             else case os_ReadDir (os_fault env) files path of
                    Inl err \<Rightarrow>
                      (False,
                       Some (Wrapf ''failed to determine multisampled corpus existence'' err))
                  | Inr entries \<Rightarrow> (isDir \<and> length entries > 0, None))"

text \<open>
  \<^verbatim>\<open>binary.LittleEndian\<close>: \<^verbatim>\<open>PutUint64\<close> writes the eight bytes of \<^verbatim>\<open>v\<close>, lowest first,
  over the first eight bytes of \<^verbatim>\<open>b\<close>; \<^verbatim>\<open>AppendUint64\<close> appends them; \<^verbatim>\<open>Uint64\<close> reads
  them back.
\<close>

definition le_bytes :: "64 word \<Rightarrow> byte list" where
  "le_bytes v = map (\<lambda>k. ucast (drop_bit (8 * k) v)) [0..<8]"

definition PutUint64 :: "byte list \<Rightarrow> 64 word \<Rightarrow> byte list" where
  "PutUint64 b v = le_bytes v @ drop 8 b"

definition AppendUint64 :: "byte list \<Rightarrow> 64 word \<Rightarrow> byte list" where
  "AppendUint64 b v = b @ le_bytes v"

definition Uint64 :: "byte list \<Rightarrow> 64 word" where
  "Uint64 b = foldr (\<lambda>x acc. ucast x OR push_bit 8 acc) (take 8 b) 0"

text \<open>
  \<^verbatim>\<open>createSubcorpus\<close>. The offsets are \<^verbatim>\<open>int64\<close>; \<^verbatim>\<open>uint64(fromIdx)\<close> keeps the 64 bits.
\<close>

definition bytesBuffer :: "64 word \<Rightarrow> 64 word \<Rightarrow> byte list" where
  "bytesBuffer fromIdx toIdx =
     AppendUint64 (PutUint64 (replicate 8 0) fromIdx) toIdx"

definition createSubcorpus ::
  "('e, 'x) edit_env_scheme \<Rightarrow> fsys \<Rightarrow> string \<Rightarrow> 64 word \<Rightarrow> 64 word \<Rightarrow> error option \<times> fsys" where
  "createSubcorpus env files path fromIdx toIdx =
     (case os_OpenFile (os_fault env) files path of
        Inl err \<Rightarrow> (Some err, files)
      | Inr opened \<Rightarrow>
          (case file_Write (write_fault env) opened path (bytesBuffer fromIdx toIdx) of
             Inl err \<Rightarrow> (Some err, opened)
           | Inr written \<Rightarrow> (None, written)))"

text \<open>\<^verbatim>\<open>mango.GetCorpusSize\<close>\<close>

definition GetCorpusSize :: "('e, 'x) edit_env_scheme \<Rightarrow> string \<Rightarrow> 64 word \<times> error option" where
  "GetCorpusSize env corpusPath =
     (case get_corpus_size env corpusPath of
        (Some msg, v) \<Rightarrow> (0, Some (Errorf msg))
      | (None, v) \<Rightarrow> (v, None))"

text \<open>\<^verbatim>\<open>fmt.Sprintf("chunk_%02d.subc", i)\<close> for a non-negative \<^verbatim>\<open>i\<close>.\<close>

definition chunk_name :: "nat \<Rightarrow> string" where
  "chunk_name i =
     ''chunk_'' @ (if i < 10 then CHR ''0'' # nat_digits i else nat_digits i) @ ''.subc''"

text \<open>
  \<^verbatim>\<open>int(math.Ceil(float64(size) / float64(maxSplitChunkSize)))\<close>; the ceiling of a
  \<^verbatim>\<open>float64\<close> is exact.
\<close>

definition numChunks_of :: "64 word \<Rightarrow> int" where
  "numChunks_of csize = \<lceil>f64_div (float64 (sint csize)) (float64 maxSplitChunkSize)\<rceil>"

text \<open>
  The loop of \<^verbatim>\<open>splitCorpus\<close> from index \<^verbatim>\<open>i\<close> on, for \<^verbatim>\<open>k\<close> more chunks: the paths of
  the chunks created, and the error that ended the loop, if any. The products are
  \<^verbatim>\<open>int64\<close> products.
\<close>

fun create_chunks ::
  "('e, 'x) edit_env_scheme \<Rightarrow> string \<Rightarrow> string \<Rightarrow> nat \<Rightarrow> nat \<Rightarrow> fsys \<Rightarrow>
   (string list \<times> error option) \<times> fsys" where
  "create_chunks env subcBaseDir cname i 0 files = (([], None), files)"
| "create_chunks env subcBaseDir cname i (Suc k) files =
     (let path = filepath_Join [subcBaseDir, cname, chunk_name i]
      in case createSubcorpus env files path
                (word_of_nat i * word_of_int maxSplitChunkSize)
                (word_of_nat (i + 1) * word_of_int maxSplitChunkSize) of
           (Some err, files') \<Rightarrow> (([], Some (Wrapf ''failed to create split corpus'' err)), files')
         | (None, files') \<Rightarrow>
             (case create_chunks env subcBaseDir cname (Suc i) k files' of
                ((paths, e), files'') \<Rightarrow> ((path # paths, e), files'')))"

text \<open>
  \<^verbatim>\<open>splitCorpus\<close>. \<^verbatim>\<open>make([]string, numChunks)\<close> panics for a negative length; the slots
  the loop has not reached hold the empty string.
\<close>

definition splitCorpus ::
  "('e, 'x) edit_env_scheme \<Rightarrow> fsys \<Rightarrow> string \<Rightarrow> string \<Rightarrow>
   (corpus_SplitCorpus \<times> error option) outcome \<times> fsys" where
  "splitCorpus env files subcBaseDir corpusPath =
     (case GetCorpusSize env corpusPath of
        (csize, Some err) \<Rightarrow>
          (Returns (\<lparr>sc_CorpusPath = corpusPath, Subcorpora = []\<rparr>,
                    Some (Wrapf ''failed create split corpus'' err)), files)
      | (csize, None) \<Rightarrow>
          let numChunks = numChunks_of csize
          in if numChunks < 0 then (Panic ''makeslice: len out of range'', files)
             else
               let empty = replicate (nat numChunks) [];
                   cname = filepath_Base corpusPath;
                   corpDir = filepath_Join [subcBaseDir, cname]
               in case fs_IsDir (os_fault env) files corpDir of
                    Inl err \<Rightarrow>
                      (Returns (\<lparr>sc_CorpusPath = corpusPath, Subcorpora = empty\<rparr>,
                                Some (Wrapf ''failed create split corpus'' err)), files)
                  | Inr cdirExists \<Rightarrow>
                      let files1 = (if \<not> cdirExists then os_Mkdir (os_fault env) files corpDir
                                    else files)
                      in case create_chunks env subcBaseDir cname 0 (nat numChunks) files1 of
                           ((paths, e), files2) \<Rightarrow>
                             (Returns
                                (\<lparr>sc_CorpusPath = corpusPath,
                                  Subcorpora = paths @ drop (length paths) empty\<rparr>, e),
                              files2))"

subsection \<open>The handlers of package edit\<close>

definition DfltNumSamples :: int where
  "DfltNumSamples = 30"

text \<open>
  The loop both handlers run over the new shards: a failing \<^verbatim>\<open>json.Marshal\<close> is logged
  and the job is published without arguments; the error of \<^verbatim>\<open>PublishQuery\<close> is dropped,
  and a goroutine is started on the channel it returned, which is nil after a failed
  publish, so that the goroutine's receive never ends.
\<close>

fun publish_coll ::
  "('e, 'x) edit_env_scheme \<Rightarrow> string \<Rightarrow> string list \<Rightarrow> world \<Rightarrow> 'e future list \<Rightarrow>
   'e future list \<times> world" where
  "publish_coll env corpPath [] w started = (started, w)"
| "publish_coll env corpPath (subc # rest) w started =
     (let (args, w1) =
            (case json_Marshal (CollFreqArgs \<lparr>cc_CorpusPath = corpPath, cc_SubcPath = subc,
                                             cc_Attrs = [''word'', ''lemma'']\<rparr>) of
               Inl err \<Rightarrow> (NilArgs, w\<lparr>logged := logged w @ [''failed to publish task'']\<rparr>)
             | Inr a \<Rightarrow> (a, w));
          query = \<lparr>Func = ''calcCollFreqData'', Args = args\<rparr>;
          w2 = w1\<lparr>published := published w1 @ [query]\<rparr>;
          wait = (case PublishQuery env query of Inl err \<Rightarrow> NeverResolves | Inr ch \<Rightarrow> ch)
      in publish_coll env corpPath rest w2 (started @ [wait]))"

text \<open>
  The goroutine once its channel has delivered: deserialise, log a failure and an error
  carried by the result, \<^verbatim>\<open>wg.Done()\<close>. Its state is the counter and the log.
\<close>

definition coll_task ::
  "('e, 'x) edit_env_scheme \<Rightarrow> 'e \<Rightarrow> int \<times> string list \<Rightarrow> int \<times> string list" where
  "coll_task env ans st =
     (let (n, msgs) = st;
          (respErr, err) = DeserializeCollFreqDataResult env ans;
          msgs1 = (if err \<noteq> None
                   then msgs @ [''failed to execute action calcCollFreqData''] else msgs);
          msgs2 = (if respErr \<noteq> None
                   then msgs1 @ [''failed to execute action calcCollFreqData''] else msgs1)
      in (n - 1, msgs2))"

definition coll_gather ::
  "('e, 'x) edit_env_scheme \<Rightarrow> string \<Rightarrow> corpus_SplitCorpus \<Rightarrow> world \<Rightarrow>
   corpus_SplitCorpus handled \<times> world" where
  "coll_gather env corpPath corp w =
     (let (started, w1) = publish_coll env corpPath (Subcorpora corp) w [];
          (n, msgs) = run_tasks (schedule env) (coll_task env) (delivered started)
                        (int (length (Subcorpora corp)), logged w1);
          w2 = w1\<lparr>logged := msgs\<rparr>
      in if n = 0 then (Responds (JSONResponse corp), w2) else (Blocks, w2))"

text \<open>
  \<^verbatim>\<open>Actions.SplitCorpus\<close>. The handler names the existence check \<^verbatim>\<open>SplitCorpusExists\<close>
  and calls \<^verbatim>\<open>splitCorpus\<close> with a chunk size; the functions the sources hold are
  \<^verbatim>\<open>splitCorpusExists\<close> and the \<^verbatim>\<open>splitCorpus\<close> with the fixed chunk size.
\<close>

definition SplitCorpus ::
  "('e, 'x) edit_env_scheme \<Rightarrow> request \<Rightarrow> world \<Rightarrow> corpus_SplitCorpus handled \<times> world" where
  "SplitCorpus env req w =
     (let corpPath = GetRegistryPath env (Param req ''corpusId'')
      in case splitCorpusExists env (fs w) (SplitCorporaDir env) corpPath of
           (exists, Some err) \<Rightarrow> (Responds (ErrorResponse err StatusConflict), w)
         | (exists, None) \<Rightarrow>
             if exists
             then (Responds (ErrorResponse (ActionError ''split corpus already exists'')
                               StatusConflict), w)
             else case splitCorpus env (fs w) (SplitCorporaDir env) corpPath of
                    (Panic msg, files) \<Rightarrow> (Panics msg, w\<lparr>fs := files\<rparr>)
                  | (Returns (corp, Some err), files) \<Rightarrow>
                      (Responds (ErrorResponse err StatusConflict), w\<lparr>fs := files\<rparr>)
                  | (Returns (corp, None), files) \<Rightarrow>
                      coll_gather env corpPath corp (w\<lparr>fs := files\<rparr>))"

definition MultiSample ::
  "'e edit_env \<Rightarrow> request \<Rightarrow> world \<Rightarrow> corpus_SplitCorpus handled \<times> world" where
  "MultiSample env req w =
     (let corpPath = GetRegistryPath env (Param req ''corpusId'')
      in case MultisampleCorpusExists env (fs w) (MultisampledCorporaDir env) corpPath of
           (exists, Some err) \<Rightarrow> (Responds (ErrorResponse err StatusConflict), w)
         | (exists, None) \<Rightarrow>
             if exists
             then (Responds (ErrorResponse (ActionError ''multisampled corpus already exists'')
                               StatusConflict), w)
             else case GetURLIntArgOrFail env req ''numSamples'' DfltNumSamples of
                    Inl (err, status) \<Rightarrow> (Responds (ErrorResponse err status), w)
                  | Inr numSamples \<Rightarrow>
                      (case MultisampleCorpus env (fs w) (MultisampledCorporaDir env) corpPath
                              (MultisampledSubcSize env) numSamples of
                         ((corp, Some err), files) \<Rightarrow>
                           (Responds (ErrorResponse err StatusConflict), w\<lparr>fs := files\<rparr>)
                       | ((corp, None), files) \<Rightarrow>
                           coll_gather env corpPath corp (w\<lparr>fs := files\<rparr>)))"

subsection \<open>Sample inputs for package edit\<close>

text \<open>
  A configuration in which every job is published and answered without an error, the
  operating system reports no fault, and the corpus has the size given.
\<close>

definition sample_edit_env :: "64 word \<Rightarrow> unit edit_env" where
  "sample_edit_env csize =
     \<lparr>GetRegistryPath = (\<lambda>corpusId. ''/corpora/registry/'' @ corpusId),
      SplitCorporaDir = ''/corpora/split'',
      PublishQuery = (\<lambda>q. Inr (Resolves ())),
      schedule = [],
      MultisampledCorporaDir = ''/corpora/multisampled'',
      MultisampledSubcSize = 1000000,
      get_corpus_size = (\<lambda>path. (None, csize)),
      os_fault = (\<lambda>path. None),
      write_fault = (\<lambda>path. None),
      DeserializeCollFreqDataResult = (\<lambda>ans. (None, None)),
      GetURLIntArgOrFail = (\<lambda>req name dflt. Inr dflt),
      MultisampleCorpus =
        (\<lambda>files dir path subcSize numSamples.
           ((\<lparr>sc_CorpusPath = path, Subcorpora = []\<rparr>, None), files))\<rparr>"

definition sample_world :: "fsys \<Rightarrow> world" where
  "sample_world files = \<lparr>published = [], logged = [], fs = files\<rparr>"

chapter \<open>Properties\<close>

section \<open>Counter table\<close>

lemma colon_split_unique:
  assumes "colon_free a" "colon_free b" "a @ CHR '':'' # r = b @ CHR '':'' # s"
  shows "a = b \<and> r = s"
  using assms
proof (induction a arbitrary: b)
  case Nil
  then show ?case by (cases b) (auto simp: colon_free_def)
next
  case (Cons x a)
  then show ?case by (cases b) (auto simp: colon_free_def)
qed

lemma mkKey_inj:
  assumes "colon_free l" "colon_free u" "colon_free d" "colon_free pl"
    and "colon_free l'" "colon_free u'" "colon_free d'" "colon_free pl'"
    and "mkKey l u pl pu d = mkKey l' u' pl' pu' d'"
  shows "l = l' \<and> u = u' \<and> pl = pl' \<and> pu = pu' \<and> d = d'"
proof -
  from assms(9) have e1:
    "l @ CHR '':'' # (u @ '':'' @ d @ '':'' @ pl @ '':'' @ pu) =
     l' @ CHR '':'' # (u' @ '':'' @ d' @ '':'' @ pl' @ '':'' @ pu')"
    by (simp add: mkKey_def)
  from colon_split_unique [OF assms(1) assms(5) e1]
  have l: "l = l'" and e2:
    "u @ CHR '':'' # (d @ '':'' @ pl @ '':'' @ pu) = u' @ CHR '':'' # (d' @ '':'' @ pl' @ '':'' @ pu')"
    by simp_all
  from colon_split_unique [OF assms(2) assms(6) e2]
  have u: "u = u'" and e3: "d @ CHR '':'' # (pl @ '':'' @ pu) = d' @ CHR '':'' # (pl' @ '':'' @ pu')"
    by simp_all
  from colon_split_unique [OF assms(3) assms(7) e3]
  have d: "d = d'" and e4: "pl @ CHR '':'' # pu = pl' @ CHR '':'' # pu'"
    by simp_all
  from colon_split_unique [OF assms(4) assms(8) e4]
  have "pl = pl'" "pu = pu'" by simp_all
  with l u d show ?thesis by simp
qed

lemma Add_at_key:
  "Add table l u pl pu d v (mkKey l u pl pu d) =
     Some (case table (mkKey l u pl pu d) of
             None \<Rightarrow> \<lparr>Lemma = l, PLemma = pl, Deprel = d, Upos = u, PUpos = pu, Freq = v\<rparr>
           | Some it \<Rightarrow> it\<lparr>Freq := Freq it + v\<rparr>)"
  by (simp add: Add_def Let_def split: option.split)

lemma Add_other_key: "k \<noteq> mkKey l u pl pu d \<Longrightarrow> Add table l u pl pu d v k = table k"
  by (simp add: Add_def Let_def)

lemma Add_twice: "Add (Add table l u pl pu d v1) l u pl pu d v2 = Add table l u pl pu d (v1 + v2)"
  by (auto simp: Add_def Let_def split: option.splits)

text \<open>
  Where no field holds a colon the key string determines the tuple, so an \<^verbatim>\<open>Add\<close> for one
  such tuple leaves the entry of every other such tuple alone.
\<close>

lemma Add_colon_free_tuples:
  assumes "colon_free l" "colon_free u" "colon_free d" "colon_free pl"
    and "colon_free l'" "colon_free u'" "colon_free d'" "colon_free pl'"
    and "(l', u', pl', pu', d') \<noteq> (l, u, pl, pu, d)"
  shows "Add table l u pl pu d v (mkKey l' u' pl' pu' d') = table (mkKey l' u' pl' pu' d')"
proof -
  have "mkKey l' u' pl' pu' d' \<noteq> mkKey l u pl pu d"
  proof
    assume "mkKey l' u' pl' pu' d' = mkKey l u pl pu d"
    with assms mkKey_inj [of l' u' d' pl' l u d pl pu' pu] show False by simp
  qed
  then show ?thesis by (rule Add_other_key)
qed

text \<open>
  C10 on the code. The claim asks that \<^verbatim>\<open>Add\<close> for a tuple raises the \<^verbatim>\<open>Freq\<close> of that
  tuple's entry, creating it with the tuple's own attributes when it is absent, and
  leaves the entry of every other tuple unchanged. \<^verbatim>\<open>mkKey\<close> joins the five fields with
  a colon and does not escape a colon inside a field, so two different tuples can share
  a key string: (x, NOUN, be, AUX, nsubj:pass) and (x, NOUN, pass:be, AUX, nsubj) both
  give \<^verbatim>\<open>x:NOUN:nsubj:pass:be:AUX\<close>. On a table that holds the first tuple with
  \<^verbatim>\<open>Freq\<close> 3, an \<^verbatim>\<open>Add\<close> of 1 for the second finds the first tuple's entry and raises
  its \<^verbatim>\<open>Freq\<close> to 4; no entry with the second tuple's attributes exists afterwards.
\<close>

theorem colliding_tuples_share_entry:
  "(''x'', ''NOUN'', ''pass:be'', ''AUX'', ''nsubj'') \<noteq> (''x'', ''NOUN'', ''be'', ''AUX'', ''nsubj:pass'')
   \<and> mkKey ''x'' ''NOUN'' ''pass:be'' ''AUX'' ''nsubj'' = mkKey ''x'' ''NOUN'' ''be'' ''AUX'' ''nsubj:pass''
   \<and> Add Map.empty ''x'' ''NOUN'' ''be'' ''AUX'' ''nsubj:pass'' 3
        (mkKey ''x'' ''NOUN'' ''be'' ''AUX'' ''nsubj:pass'') =
      Some \<lparr>Lemma = ''x'', PLemma = ''be'', Deprel = ''nsubj:pass'', Upos = ''NOUN'',
            PUpos = ''AUX'', Freq = 3\<rparr>
   \<and> Add (Add Map.empty ''x'' ''NOUN'' ''be'' ''AUX'' ''nsubj:pass'' 3)
          ''x'' ''NOUN'' ''pass:be'' ''AUX'' ''nsubj'' 1
        (mkKey ''x'' ''NOUN'' ''be'' ''AUX'' ''nsubj:pass'') =
      Some \<lparr>Lemma = ''x'', PLemma = ''be'', Deprel = ''nsubj:pass'', Upos = ''NOUN'',
            PUpos = ''AUX'', Freq = 4\<rparr>
   \<and> (\<forall>k. Add (Add Map.empty ''x'' ''NOUN'' ''be'' ''AUX'' ''nsubj:pass'' 3)
               ''x'' ''NOUN'' ''pass:be'' ''AUX'' ''nsubj'' 1 k \<noteq>
            Some \<lparr>Lemma = ''x'', PLemma = ''pass:be'', Deprel = ''nsubj'', Upos = ''NOUN'',
                  PUpos = ''AUX'', Freq = 1\<rparr>)"
  by (simp add: Add_def mkKey_def)

section \<open>Concordance wrappers\<close>

lemma conc_result_error:
  "ans_err ans = Some msg \<Longrightarrow>
   conc_result ret ans =
     Returns (ret, Some (if ans_errorCode ans = 1 then ErrRowsRangeOutOfConc else Errorf msg))"
  by (simp add: conc_result_def)

text \<open>
  C9. When the engine reports an error (a non-null error string) with error code 1, both
  wrappers return the sentinel \<^verbatim>\<open>ErrRowsRangeOutOfConc\<close>, which is not an error built
  from the engine's string; with any other error code they return the error built from
  the engine's string. (\<^verbatim>\<open>GetConcordance\<close> reaches the engine only for non-negative
  \<^verbatim>\<open>fromLine\<close>, \<^verbatim>\<open>maxItems\<close> and \<^verbatim>\<open>maxContext\<close>; it panics before the call otherwise.)
\<close>

theorem concordance_error_mapping:
  assumes "0 \<le> fromLine" "0 \<le> maxItems" "0 \<le> maxContext"
    and "ans = eng [corpusPath, query, Join attrs '','', Join structs '','',
                    Join (with_hash_ref refs) '','', mark, vcs]
                   [fromLine, maxItems, maxContext]"
    and "ans' = eng' [corpusPath, query, collQuery @ '';'', Itoa lftCtx, Itoa rgtCtx,
                      Join attrs '','', Join structs '','', Join (with_hash_ref refs) '','',
                      mark, vcs]
                     [fromLine, maxItems, maxContext]"
    and "ret = \<lparr>Lines = [], AlignedLines = None,
                 ConcSize = ans_concSize ans, CorpusSize = ans_corpusSize ans\<rparr>"
    and "ret' = \<lparr>Lines = [], AlignedLines = None, ConcSize = ans_concSize ans', CorpusSize = 0\<rparr>"
  shows "(ans_err ans = Some msg \<and> ans_errorCode ans = 1 \<longrightarrow>
            GetConcordance eng mark corpusPath query attrs structs refs
              fromLine maxItems maxContext vcs
            = Returns (ret, Some ErrRowsRangeOutOfConc))
       \<and> (ans_err ans = Some msg \<and> ans_errorCode ans \<noteq> 1 \<longrightarrow>
            GetConcordance eng mark corpusPath query attrs structs refs
              fromLine maxItems maxContext vcs
            = Returns (ret, Some (Errorf msg)))
       \<and> (ans_err ans' = Some msg \<and> ans_errorCode ans' = 1 \<longrightarrow>
            GetConcordanceWithCollPhrase eng' mark corpusPath query collQuery lftCtx
              rgtCtx attrs structs refs fromLine maxItems maxContext vcs
            = Returns (ret', Some ErrRowsRangeOutOfConc))
       \<and> (ans_err ans' = Some msg \<and> ans_errorCode ans' \<noteq> 1 \<longrightarrow>
            GetConcordanceWithCollPhrase eng' mark corpusPath query collQuery lftCtx
              rgtCtx attrs structs refs fromLine maxItems maxContext vcs
            = Returns (ret', Some (Errorf msg)))
       \<and> ErrRowsRangeOutOfConc \<noteq> Errorf msg"
  using assms
  by (auto simp: GetConcordance_def GetConcordanceWithCollPhrase_def Let_def conc_result_error)

text \<open>
  The witness: an engine that answers every call with the error text \<^verbatim>\<open>out of range\<close> and
  error code 1, and one that answers with \<^verbatim>\<open>no such corpus\<close> and error code 2.
\<close>

theorem concordance_error_mapping_witness:
  "GetConcordance
     (\<lambda>strs nums. \<lparr>ans_err = Some ''out of range'', ans_errorCode = 1, ans_value = [],
                    ans_aligned = None, ans_concSize = 7, ans_corpusSize = 90\<rparr>)
     ''</ref>'' ''/corpora/registry/syn'' ''[lemma=dog]'' [''word''] [] [] 50 10 5 ''s''
   = Returns (\<lparr>Lines = [], AlignedLines = None, ConcSize = 7, CorpusSize = 90\<rparr>,
              Some ErrRowsRangeOutOfConc)
   \<and> GetConcordanceWithCollPhrase
     (\<lambda>strs nums. \<lparr>ans_err = Some ''no such corpus'', ans_errorCode = 2, ans_value = [],
                    ans_aligned = None, ans_concSize = 0, ans_corpusSize = 0\<rparr>)
     ''</ref>'' ''/corpora/registry/syn'' ''[lemma=dog]'' ''[lemma=bark]'' 1 1 [''word''] [] [] 50 10 5 ''s''
   = Returns (\<lparr>Lines = [], AlignedLines = None, ConcSize = 0, CorpusSize = 0\<rparr>,
              Some (Errorf ''no such corpus''))"
proof -
  have nonneg: "(0::int) \<le> 50" "(0::int) \<le> 10" "(0::int) \<le> 5" by simp_all
  note t = concordance_error_mapping
    [OF nonneg refl refl refl refl,
     of "\<lambda>strs nums. \<lparr>ans_err = Some ''out of range'', ans_errorCode = 1, ans_value = [],
                    ans_aligned = None, ans_concSize = 7, ans_corpusSize = 90\<rparr>"
        "''/corpora/registry/syn''" "''[lemma=dog]''" "[''word'']" "[]" "[]" "''</ref>''" "''s''"
        _
        "\<lambda>strs nums. \<lparr>ans_err = Some ''no such corpus'', ans_errorCode = 2, ans_value = [],
                    ans_aligned = None, ans_concSize = 0, ans_corpusSize = 0\<rparr>"
        "''[lemma=bark]''" 1 1]
  from t [of "''out of range''"] have a: "GetConcordance
     (\<lambda>strs nums. \<lparr>ans_err = Some ''out of range'', ans_errorCode = 1, ans_value = [],
                    ans_aligned = None, ans_concSize = 7, ans_corpusSize = 90\<rparr>)
     ''</ref>'' ''/corpora/registry/syn'' ''[lemma=dog]'' [''word''] [] [] 50 10 5 ''s''
   = Returns (\<lparr>Lines = [], AlignedLines = None, ConcSize = 7, CorpusSize = 90\<rparr>,
              Some ErrRowsRangeOutOfConc)"
    by simp
  from t [of "''no such corpus''"] have b: "GetConcordanceWithCollPhrase
     (\<lambda>strs nums. \<lparr>ans_err = Some ''no such corpus'', ans_errorCode = 2, ans_value = [],
                    ans_aligned = None, ans_concSize = 0, ans_corpusSize = 0\<rparr>)
     ''</ref>'' ''/corpora/registry/syn'' ''[lemma=dog]'' ''[lemma=bark]'' 1 1 [''word''] [] [] 50 10 5 ''s''
   = Returns (\<lparr>Lines = [], AlignedLines = None, ConcSize = 0, CorpusSize = 0\<rparr>,
              Some (Errorf ''no such corpus''))"
    by simp
  from a b show ?thesis by simp
qed

section \<open>Numeric request parameters\<close>

lemma int_param_bad:
  "Has req name \<Longrightarrow> Atoi (Get req name) = Inl e \<Longrightarrow> int_param req name d = Inl e"
  by (simp add: int_param_def)

lemma FreqDistrib_bad_flimit:
  "int_param req ''flimit'' 1 = Inl e \<Longrightarrow>
   FreqDistrib env req b = (Responds (ErrorResponse e StatusUnprocessableEntity), b)"
  by (simp add: FreqDistrib_def)

lemma TextTypes_bad_flimit:
  "int_param req ''flimit'' 1 = Inl e \<Longrightarrow>
   TextTypes env req b = (Responds (ErrorResponse e StatusUnprocessableEntity), b)"
  by (simp add: TextTypes_def)

lemma TextTypesParallel_no_split:
  "OpenSplitCorpus env (SplitCorporaDir env) (GetRegistryPath env (Param req ''corpusId'')) = Inl oe \<Longrightarrow>
   TextTypesParallel env req b = (Responds (ErrorResponse oe StatusInternalServerError), b)"
  by (simp add: TextTypesParallel_def)

lemma TextTypesParallel_bad_flimit:
  "OpenSplitCorpus env (SplitCorporaDir env) (GetRegistryPath env (Param req ''corpusId'')) = Inr subs \<Longrightarrow>
   int_param req ''flimit'' 1 = Inl e \<Longrightarrow>
   TextTypesParallel env req b = (Responds (ErrorResponse e StatusUnprocessableEntity), b)"
  by (simp add: TextTypesParallel_def)

lemma TextTypesParallel_bad_maxItems:
  "OpenSplitCorpus env (SplitCorporaDir env) (GetRegistryPath env (Param req ''corpusId'')) = Inr subs \<Longrightarrow>
   int_param req ''flimit'' 1 = Inr fl \<Longrightarrow>
   int_param req ''maxItems'' 0 = Inl e \<Longrightarrow>
   TextTypesParallel env req b = (Responds (ErrorResponse e StatusUnprocessableEntity), b)"
  by (simp add: TextTypesParallel_def)

text \<open>
  C7, as the code has it. \<^verbatim>\<open>FreqDistrib\<close> and \<^verbatim>\<open>TextTypes\<close> answer a present, unparseable
  \<^verbatim>\<open>flimit\<close> with the parse error and status 422 and leave the broker as it was (no
  call of \<^verbatim>\<open>PublishQuery\<close>, nothing logged). \<^verbatim>\<open>TextTypesParallel\<close> opens the split corpus
  first: when that succeeds it answers an unparseable \<^verbatim>\<open>flimit\<close>, or an unparseable
  \<^verbatim>\<open>maxItems\<close> beside a good \<^verbatim>\<open>flimit\<close>, the same way; when it fails the answer is that
  error with status 500, whatever the parameters are. The broker is untouched in every
  case.
\<close>

theorem malformed_limit_rejected:
  "(Has req ''flimit'' \<and> Atoi (Get req ''flimit'') = Inl err \<longrightarrow>
      FreqDistrib env req b = (Responds (ErrorResponse err StatusUnprocessableEntity), b)
    \<and> TextTypes env req b = (Responds (ErrorResponse err StatusUnprocessableEntity), b)
    \<and> (OpenSplitCorpus env (SplitCorporaDir env) (GetRegistryPath env (Param req ''corpusId''))
          = Inr subs \<longrightarrow>
        TextTypesParallel env req b
          = (Responds (ErrorResponse err StatusUnprocessableEntity), b)))
   \<and> (Has req ''maxItems'' \<and> Atoi (Get req ''maxItems'') = Inl err \<and>
      int_param req ''flimit'' 1 = Inr flimit \<and>
      OpenSplitCorpus env (SplitCorporaDir env) (GetRegistryPath env (Param req ''corpusId''))
        = Inr subs \<longrightarrow>
      TextTypesParallel env req b
        = (Responds (ErrorResponse err StatusUnprocessableEntity), b))
   \<and> (OpenSplitCorpus env (SplitCorporaDir env) (GetRegistryPath env (Param req ''corpusId''))
        = Inl oe \<longrightarrow>
      TextTypesParallel env req b
        = (Responds (ErrorResponse oe StatusInternalServerError), b))"
  by (auto simp: int_param_bad FreqDistrib_bad_flimit TextTypes_bad_flimit
      TextTypesParallel_no_split TextTypesParallel_bad_flimit TextTypesParallel_bad_maxItems)

text \<open>
  The witness: \<^verbatim>\<open>flimit=abc\<close> for the three handlers, then \<^verbatim>\<open>flimit=5&maxItems=1x\<close>,
  on a corpus split into one shard.
\<close>

theorem malformed_limit_rejected_witness:
  "FreqDistrib (sample_env (Inr [''/corpora/split/syn/chunk_00.subc'']) [] [] [])
     (sample_request [(''q'', [''[lemma=dog]'']), (''flimit'', [''abc''])]) idle
   = (Responds (ErrorResponse (NumError ''Atoi'' ''abc'' ErrSyntax) 422), idle)
   \<and> TextTypes (sample_env (Inr [''/corpora/split/syn/chunk_00.subc'']) [] [] [])
     (sample_request [(''q'', [''[lemma=dog]'']), (''flimit'', [''abc''])]) idle
   = (Responds (ErrorResponse (NumError ''Atoi'' ''abc'' ErrSyntax) 422), idle)
   \<and> TextTypesParallel (sample_env (Inr [''/corpora/split/syn/chunk_00.subc'']) [] [] [])
     (sample_request [(''q'', [''[lemma=dog]'']), (''flimit'', [''abc''])]) idle
   = (Responds (ErrorResponse (NumError ''Atoi'' ''abc'' ErrSyntax) 422), idle)
   \<and> TextTypesParallel (sample_env (Inr [''/corpora/split/syn/chunk_00.subc'']) [] [] [])
     (sample_request [(''flimit'', [''5'']), (''maxItems'', [''1x''])]) idle
   = (Responds (ErrorResponse (NumError ''Atoi'' ''1x'' ErrSyntax) 422), idle)"
proof -
  let ?env = "sample_env (Inr [''/corpora/split/syn/chunk_00.subc'']) [] [] []"
  let ?r1 = "sample_request [(''q'', [''[lemma=dog]'']), (''flimit'', [''abc''])]"
  let ?r2 = "sample_request [(''flimit'', [''5'']), (''maxItems'', [''1x''])]"
  have h1: "Has ?r1 ''flimit'' \<and> Atoi (Get ?r1 ''flimit'') = Inl (NumError ''Atoi'' ''abc'' ErrSyntax)"
    by (simp add: Has_def Get_def sample_request_def Atoi_def digit_val_def)
  have h2: "Has ?r2 ''maxItems'' \<and> Atoi (Get ?r2 ''maxItems'') = Inl (NumError ''Atoi'' ''1x'' ErrSyntax)
            \<and> int_param ?r2 ''flimit'' 1 = Inr 5"
    by (simp add: Has_def Get_def sample_request_def Atoi_def digit_val_def int_param_def)
  have o: "OpenSplitCorpus ?env (SplitCorporaDir ?env) (GetRegistryPath ?env (Param ?r1 ''corpusId''))
             = Inr [''/corpora/split/syn/chunk_00.subc'']"
          "OpenSplitCorpus ?env (SplitCorporaDir ?env) (GetRegistryPath ?env (Param ?r2 ''corpusId''))
             = Inr [''/corpora/split/syn/chunk_00.subc'']"
    by (simp_all add: sample_env_def)
  from malformed_limit_rejected
         [of ?r1 "NumError ''Atoi'' ''abc'' ErrSyntax" ?env idle "[''/corpora/split/syn/chunk_00.subc'']"]
       h1 o(1)
  have a: "FreqDistrib ?env ?r1 idle
             = (Responds (ErrorResponse (NumError ''Atoi'' ''abc'' ErrSyntax) 422), idle)
           \<and> TextTypes ?env ?r1 idle
             = (Responds (ErrorResponse (NumError ''Atoi'' ''abc'' ErrSyntax) 422), idle)
           \<and> TextTypesParallel ?env ?r1 idle
             = (Responds (ErrorResponse (NumError ''Atoi'' ''abc'' ErrSyntax) 422), idle)"
    by (simp add: StatusUnprocessableEntity_def)
  from malformed_limit_rejected
         [of ?r2 "NumError ''Atoi'' ''1x'' ErrSyntax" ?env idle "[''/corpora/split/syn/chunk_00.subc'']" 5]
       h2 o(2)
  have b: "TextTypesParallel ?env ?r2 idle
             = (Responds (ErrorResponse (NumError ''Atoi'' ''1x'' ErrSyntax) 422), idle)"
    by (simp add: StatusUnprocessableEntity_def)
  from a b show ?thesis by simp
qed

text \<open>
  The claim as stated fails for \<^verbatim>\<open>TextTypesParallel\<close> on a corpus whose split cannot be
  opened: the request \<^verbatim>\<open>flimit=abc\<close> is answered with the error of the open and status
  500, not with status 422.
\<close>

theorem malformed_limit_counterexample:
  "Has (sample_request [(''flimit'', [''abc''])]) ''flimit''
   \<and> Atoi (Get (sample_request [(''flimit'', [''abc''])]) ''flimit'')
       = Inl (NumError ''Atoi'' ''abc'' ErrSyntax)
   \<and> TextTypesParallel (sample_env (Inl (OsError ''no such file or directory'')) [] [] [])
       (sample_request [(''flimit'', [''abc''])]) idle
     = (Responds (ErrorResponse (OsError ''no such file or directory'') 500), idle)
   \<and> fst (TextTypesParallel (sample_env (Inl (OsError ''no such file or directory'')) [] [] [])
       (sample_request [(''flimit'', [''abc''])]) idle)
     \<noteq> Responds (ErrorResponse (NumError ''Atoi'' ''abc'' ErrSyntax) StatusUnprocessableEntity)"
  by (simp add: Has_def Get_def sample_request_def Atoi_def digit_val_def
      TextTypesParallel_def sample_env_def StatusInternalServerError_def)

section \<open>The completion barrier of the scatter-gather\<close>

lemma shard_task_wg: "wg (fst (shard_task env d tmp s)) = wg (fst s) - 1"
  by (simp add: shard_task_def split: prod.splits)

text \<open>A goroutine merges what the deserialiser returned, whether or not it reported an error.\<close>

lemma shard_task_result:
  "result (fst (shard_task env d tmp s)) = MergeWith env (result (fst s)) (fst (d tmp))"
  by (simp add: shard_task_def split: prod.splits)

text \<open>Every goroutine that runs takes one off the counter, in whatever order they run.\<close>

lemma run_tasks_counter:
  "wg (fst (run_tasks sched (shard_task env d) ts s)) = wg (fst s) - int (length ts)"
proof (induction sched "shard_task env d" ts s rule: run_tasks.induct)
  case (1 sched s)
  then show ?case by simp
next
  case (2 t ts s)
  then show ?case by (simp add: shard_task_wg)
next
  case (3 k ks t ts s)
  let ?xs = "t # ts"
  let ?i = "k mod length ?xs"
  have i: "?i < length ?xs" by simp
  then have len: "length (take ?i ?xs @ drop (Suc ?i) ?xs) = length ts" by auto
  have "wg (fst (run_tasks (k # ks) (shard_task env d) ?xs s)) =
        wg (fst (run_tasks ks (shard_task env d) (take ?i ?xs @ drop (Suc ?i) ?xs)
                   (shard_task env d (?xs ! ?i) s)))"
    by (simp add: Let_def)
  also have "\<dots> = wg (fst (shard_task env d (?xs ! ?i) s))
                    - int (length (take ?i ?xs @ drop (Suc ?i) ?xs))"
    using 3 by simp
  also have "\<dots> = wg (fst s) - int (length ?xs)"
    unfolding len by (simp add: shard_task_wg)
  finally show ?case .
qed

lemma length_delivered: "length (delivered futs) \<le> length futs"
  by (induction futs rule: delivered.induct) auto

lemma length_delivered_all:
  "\<forall>f \<in> set futs. f \<noteq> NeverResolves \<Longrightarrow> length (delivered futs) = length futs"
  by (induction futs rule: delivered.induct) auto

text \<open>The loop starts at most one goroutine per shard, and none for a shard whose job is refused.\<close>

lemma publish_shards_started:
  "publish_shards env mk subs b started = (Inr st, b') \<Longrightarrow>
   length st \<le> length started + length subs \<and>
   ((\<exists>subc \<in> set subs.
       isl (PublishQuery env \<lparr>Func = ''freqDistrib'', Args = FreqArgs (mk subc)\<rparr>))
      \<longrightarrow> length st < length started + length subs)"
proof (induction subs arbitrary: b started)
  case Nil
  then show ?case by simp
next
  case (Cons subc rest)
  show ?case
  proof (cases "PublishQuery env \<lparr>Func = ''freqDistrib'', Args = FreqArgs (mk subc)\<rparr>")
    case (Inl err)
    with Cons.prems have
      "publish_shards env mk rest
         (b\<lparr>published := published b @ [\<lparr>Func = ''freqDistrib'', Args = FreqArgs (mk subc)\<rparr>],
            logged := logged b @ [''failed to publish query'']\<rparr>) started = (Inr st, b')"
      by (simp add: json_Marshal_def Let_def)
    from Cons.IH [OF this] show ?thesis by auto
  next
    case (Inr wait)
    with Cons.prems have
      "publish_shards env mk rest
         (b\<lparr>published := published b @ [\<lparr>Func = ''freqDistrib'', Args = FreqArgs (mk subc)\<rparr>]\<rparr>)
         (started @ [wait]) = (Inr st, b')"
      by (simp add: json_Marshal_def Let_def)
    from Cons.IH [OF this] Inr show ?thesis by auto
  qed
qed

lemma publish_shards_Inr:
  "\<exists>st b'. publish_shards env mk subs b started = (Inr st, b')"
  by (induction subs arbitrary: b started)
     (auto simp: json_Marshal_def Let_def split: sum.splits)

text \<open>
  One refused job is enough: the counter starts at the number of shards, fewer
  goroutines than that exist, so it never reaches zero.
\<close>

lemma scatter_gather_blocks:
  assumes "subc \<in> set subs"
    and "isl (PublishQuery env \<lparr>Func = ''freqDistrib'', Args = FreqArgs (mk subc)\<rparr>)"
  shows "fst (scatter_gather env d mk subs b) = Inr None"
proof -
  obtain st b' where p: "publish_shards env mk subs b [] = (Inr st, b')"
    using publish_shards_Inr by blast
  from publish_shards_started [OF p] assms have "length st < length subs" by auto
  with length_delivered [of st] have lt: "length (delivered st) < length subs" by simp
  let ?g0 = "\<lparr>wg = int (length subs), result = \<lparr>Freqs = []\<rparr>\<rparr>"
  have "wg (fst (run_tasks (schedule env) (shard_task env d) (delivered st) (?g0, b')))
        = int (length subs) - int (length (delivered st))"
    by (simp add: run_tasks_counter)
  with lt have "wg (fst (run_tasks (schedule env) (shard_task env d) (delivered st) (?g0, b'))) \<noteq> 0"
    by simp
  with p show ?thesis
    by (auto simp: scatter_gather_def Let_def split: prod.splits)
qed

text \<open>
  C1 on the code. The claim asks that a shard whose job cannot be published still gives
  up its slot in the barrier. The handlers do not do that: \<^verbatim>\<open>wg.Done()\<close> is called only
  inside the goroutine, and no goroutine is started for a refused job. So whenever the
  split corpus opens, the parameters parse and the job of one shard is refused,
  \<^verbatim>\<open>FreqDistribParallel\<close> and \<^verbatim>\<open>TextTypesParallel\<close> never answer, under every schedule and
  whatever the other shards deliver.
\<close>

theorem publish_failure_blocks_gather:
  assumes "OpenSplitCorpus env (SplitCorporaDir env) (GetRegistryPath env (Param req ''corpusId''))
             = Inr subs"
    and "int_param req ''flimit'' 1 = Inr flimit"
    and "subc \<in> set subs"
    and "\<forall>q. query_subc q = subc \<longrightarrow> isl (PublishQuery env q)"
  shows "fst (FreqDistribParallel env req b) = Blocks
       \<and> (\<forall>m. int_param req ''maxItems'' 0 = Inr m \<longrightarrow> fst (TextTypesParallel env req b) = Blocks)"
proof (intro conjI allI impI)
  let ?mk = "\<lambda>subc. \<lparr>CorpusPath = GetRegistryPath env (Param req ''corpusId''), SubcPath = subc,
                      Query = Get req ''q'', Crit = ''lemma/e 0~0>0'', Limit = flimit,
                      FreqLimit = 0, MaxResults = 0\<rparr>"
  from assms(4) have pub:
    "isl (PublishQuery env \<lparr>Func = ''freqDistrib'', Args = FreqArgs (?mk subc)\<rparr>)"
    by (simp add: query_subc_def)
  have "fst (scatter_gather env (DeserializeFreqDistribResult env) ?mk subs b) = Inr None"
    by (rule scatter_gather_blocks [where subc = subc and mk = ?mk, OF assms(3)]) (rule pub)
  with assms(1,2) show "fst (FreqDistribParallel env req b) = Blocks"
    by (auto simp: FreqDistribParallel_def Let_def split: prod.splits)
next
  fix m assume m: "int_param req ''maxItems'' 0 = Inr m"
  let ?mk = "\<lambda>subc. \<lparr>CorpusPath = GetRegistryPath env (Param req ''corpusId''), SubcPath = subc,
                      Query = Get req ''q'', Crit = Get req ''attr'' @ '' 0'', Limit = 0,
                      FreqLimit = flimit, MaxResults = m\<rparr>"
  from assms(4) have pub:
    "isl (PublishQuery env \<lparr>Func = ''freqDistrib'', Args = FreqArgs (?mk subc)\<rparr>)"
    by (simp add: query_subc_def)
  have "fst (scatter_gather env (DeserializeTextTypesResult env) ?mk subs b) = Inr None"
    by (rule scatter_gather_blocks [where subc = subc and mk = ?mk, OF assms(3)]) (rule pub)
  with assms(1,2) m show "fst (TextTypesParallel env req b) = Blocks"
    by (auto simp: TextTypesParallel_def Let_def split: prod.splits)
qed

text \<open>
  The witness is the specification's test: three shards, the job of the second one is
  refused, the first and the third deliver. Neither handler answers.
\<close>

theorem publish_failure_blocks_gather_witness:
  "fst (FreqDistribParallel
     (sample_env
        (Inr [''/corpora/split/syn/chunk_00.subc'', ''/corpora/split/syn/chunk_01.subc'',
              ''/corpora/split/syn/chunk_02.subc''])
        [(''/corpora/split/syn/chunk_00.subc'',
            Inr (Resolves (\<lparr>Freqs = [item ''cat'' 5, item ''dog'' 2]\<rparr>, None))),
         (''/corpora/split/syn/chunk_01.subc'', Inl (BrokerError ''unreachable'')),
         (''/corpora/split/syn/chunk_02.subc'',
            Inr (Resolves (\<lparr>Freqs = [item ''cat'' 1, item ''bird'' 4]\<rparr>, None)))]
        [] [])
     (sample_request [(''q'', [''[lemma=dog]''])]) idle) = Blocks
   \<and> fst (TextTypesParallel
     (sample_env
        (Inr [''/corpora/split/syn/chunk_00.subc'', ''/corpora/split/syn/chunk_01.subc'',
              ''/corpora/split/syn/chunk_02.subc''])
        [(''/corpora/split/syn/chunk_00.subc'',
            Inr (Resolves (\<lparr>Freqs = [item ''cat'' 5, item ''dog'' 2]\<rparr>, None))),
         (''/corpora/split/syn/chunk_01.subc'', Inl (BrokerError ''unreachable'')),
         (''/corpora/split/syn/chunk_02.subc'',
            Inr (Resolves (\<lparr>Freqs = [item ''cat'' 1, item ''bird'' 4]\<rparr>, None)))]
        [] [])
     (sample_request [(''q'', [''[lemma=dog]''])]) idle) = Blocks"
proof -
  let ?subs = "[''/corpora/split/syn/chunk_00.subc'', ''/corpora/split/syn/chunk_01.subc'',
                ''/corpora/split/syn/chunk_02.subc'']"
  let ?env = "sample_env (Inr ?subs)
        [(''/corpora/split/syn/chunk_00.subc'',
            Inr (Resolves (\<lparr>Freqs = [item ''cat'' 5, item ''dog'' 2]\<rparr>, None))),
         (''/corpora/split/syn/chunk_01.subc'', Inl (BrokerError ''unreachable'')),
         (''/corpora/split/syn/chunk_02.subc'',
            Inr (Resolves (\<lparr>Freqs = [item ''cat'' 1, item ''bird'' 4]\<rparr>, None)))]
        [] []"
  let ?req = "sample_request [(''q'', [''[lemma=dog]''])]"
  have h1: "OpenSplitCorpus ?env (SplitCorporaDir ?env) (GetRegistryPath ?env (Param ?req ''corpusId''))
              = Inr ?subs"
    by (simp add: sample_env_def)
  have h2: "int_param ?req ''flimit'' 1 = Inr 1"
    by (simp add: int_param_def Has_def sample_request_def)
  have h3: "''/corpora/split/syn/chunk_01.subc'' \<in> set ?subs" by simp
  have h4: "\<forall>q. query_subc q = ''/corpora/split/syn/chunk_01.subc'' \<longrightarrow> isl (PublishQuery ?env q)"
    by (simp add: sample_env_def)
  have h5: "int_param ?req ''maxItems'' 0 = Inr 0"
    by (simp add: int_param_def Has_def sample_request_def)
  from publish_failure_blocks_gather [OF h1 h2 h3 h4, of idle] h5 show ?thesis by blast
qed

section \<open>Shards that fail to decode\<close>

text \<open>
  C6 on the code. The claim asks that a shard whose envelope fails to decode contributes
  nothing to the accumulator. The goroutine logs the error and then merges what the
  deserialiser returned all the same (there is no return or else after the log). Here
  two shards deliver, the envelope of \<^verbatim>\<open>chunk_01\<close> decodes with an error and the items
  cat:1 and bird:4 beside it, and the answer holds them: cat is 6 and bird is there,
  where a gather that skipped the shard would answer cat:5, dog:2. The gather does
  complete, and the error is logged.
\<close>

theorem undecodable_shard_is_merged:
  "FreqDistribParallel
     (sample_env
        (Inr [''/corpora/split/syn/chunk_00.subc'', ''/corpora/split/syn/chunk_01.subc''])
        [(''/corpora/split/syn/chunk_00.subc'',
            Inr (Resolves (\<lparr>Freqs = [item ''cat'' 5, item ''dog'' 2]\<rparr>, None))),
         (''/corpora/split/syn/chunk_01.subc'',
            Inr (Resolves (\<lparr>Freqs = [item ''cat'' 1, item ''bird'' 4]\<rparr>,
                           Some (Errorf ''failed to deserialize FreqDistrib''))))]
        [] [])
     (sample_request [(''q'', [''[lemma=dog]''])]) idle
   = (Responds (JSONResponse \<lparr>Freqs = [item ''cat'' 6, item ''dog'' 2, item ''bird'' 4]\<rparr>),
      \<lparr>published =
         [\<lparr>Func = ''freqDistrib'',
           Args = FreqArgs \<lparr>CorpusPath = ''/corpora/registry/syn'',
                            SubcPath = ''/corpora/split/syn/chunk_00.subc'',
                            Query = ''[lemma=dog]'', Crit = ''lemma/e 0~0>0'', Limit = 1,
                            FreqLimit = 0, MaxResults = 0\<rparr>\<rparr>,
          \<lparr>Func = ''freqDistrib'',
           Args = FreqArgs \<lparr>CorpusPath = ''/corpora/registry/syn'',
                            SubcPath = ''/corpora/split/syn/chunk_01.subc'',
                            Query = ''[lemma=dog]'', Crit = ''lemma/e 0~0>0'', Limit = 1,
                            FreqLimit = 0, MaxResults = 0\<rparr>\<rparr>],
       logged = [''failed to deserialize query'']\<rparr>)
   \<and> fst (TextTypesParallel
     (sample_env
        (Inr [''/corpora/split/syn/chunk_00.subc'', ''/corpora/split/syn/chunk_01.subc''])
        [(''/corpora/split/syn/chunk_00.subc'',
            Inr (Resolves (\<lparr>Freqs = [item ''cat'' 5, item ''dog'' 2]\<rparr>, None))),
         (''/corpora/split/syn/chunk_01.subc'',
            Inr (Resolves (\<lparr>Freqs = [item ''cat'' 1, item ''bird'' 4]\<rparr>,
                           Some (Errorf ''failed to deserialize FreqDistrib''))))]
        [] [])
     (sample_request [(''attr'', [''doc.genre'']), (''maxItems'', [''3''])]) idle)
   = Responds (JSONResponse [Some (item ''cat'' 6), Some (item ''bird'' 4), Some (item ''dog'' 2)])"
  by (simp add: FreqDistribParallel_def TextTypesParallel_def sample_env_def sample_request_def
      idle_def Get_def Param_def Has_def int_param_def scatter_gather_def json_Marshal_def
      query_subc_def shard_task_def spec_MergeWith_def item_def Let_def Atoi_def digit_val_def
      sort_and_cut_def SliceStable_def reslice_to_def)

section \<open>Sorting and cutting the merged items\<close>

lemma insert_stable_insort:
  "insert_stable (\<lambda>i j. ItemFreq i > ItemFreq j) x ys = insort_key (\<lambda>i. - ItemFreq i) x ys"
  by (induction ys) auto

text \<open>The stable sort with the handler's comparison is the library's stable sort by \<^verbatim>\<open>-Freq\<close>.\<close>

lemma SliceStable_sort_key:
  "SliceStable (\<lambda>i j. ItemFreq i > ItemFreq j) xs = sort_key (\<lambda>i. - ItemFreq i) xs"
  by (induction xs) (auto simp: SliceStable_def insert_stable_insort sort_key_def)




lemma SliceStable_length:
  "length (SliceStable (\<lambda>i j. ItemFreq i > ItemFreq j) xs) = length xs"
  by (simp add: SliceStable_sort_key)

text \<open>Once the gather has completed, the handler's answer is what the cut gives.\<close>

lemma TextTypesParallel_completes:
  assumes "OpenSplitCorpus env (SplitCorporaDir env) (GetRegistryPath env (Param req ''corpusId''))
             = Inr subs"
    and "int_param req ''flimit'' 1 = Inr flimit"
    and "int_param req ''maxItems'' 0 = Inr maxItems"
    and "scatter_gather env (DeserializeTextTypesResult env)
           (\<lambda>subc. \<lparr>CorpusPath = GetRegistryPath env (Param req ''corpusId''), SubcPath = subc,
                    Query = Get req ''q'', Crit = Get req ''attr'' @ '' 0'', Limit = 0,
                    FreqLimit = flimit, MaxResults = maxItems\<rparr>)
           subs b = (Inr (Some res), b')"
  shows "TextTypesParallel env req b =
           (case sort_and_cut (Freqs res) (spare env) maxItems of
              Panic msg \<Rightarrow> (Panics msg, b')
            | Returns freqs \<Rightarrow> (Responds (JSONResponse freqs), b'))"
  using assms by (simp add: TextTypesParallel_def Let_def)




text \<open>
  C2 on the code. The claim asks that cutting a list shorter than the cap leaves it
  unchanged. The handler cuts with the slice expression \<^verbatim>\<open>result.Freqs[:cut]\<close> alone, so
  when the merged list has fewer than \<^verbatim>\<open>cut\<close> items the answer is never the sorted list
  itself: the handler panics when \<^verbatim>\<open>cut\<close> is above the capacity of the slice, and
  otherwise the answer is the sorted list followed by the spare slots of the backing array
  up to length \<^verbatim>\<open>cut\<close>.
\<close>

theorem cut_of_short_list:
  assumes "OpenSplitCorpus env (SplitCorporaDir env) (GetRegistryPath env (Param req ''corpusId''))
             = Inr subs"
    and "int_param req ''flimit'' 1 = Inr flimit"
    and "int_param req ''maxItems'' 0 = Inr maxItems"
    and "scatter_gather env (DeserializeTextTypesResult env)
           (\<lambda>subc. \<lparr>CorpusPath = GetRegistryPath env (Param req ''corpusId''), SubcPath = subc,
                    Query = Get req ''q'', Crit = Get req ''attr'' @ '' 0'', Limit = 0,
                    FreqLimit = flimit, MaxResults = maxItems\<rparr>)
           subs b = (Inr (Some res), b')"
    and "cutoff = (if maxItems = 0 then 100 else maxItems)"
    and "int (length (Freqs res)) < cutoff"
    and "ranked = SliceStable (\<lambda>i j. ItemFreq i > ItemFreq j) (Freqs res)"
  shows "fst (TextTypesParallel env req b) \<noteq> Responds (JSONResponse (map Some ranked))
       \<and> (int (length (Freqs res) + length (spare env)) < cutoff \<longrightarrow>
            fst (TextTypesParallel env req b) = Panics ''slice bounds out of range'')
       \<and> (cutoff \<le> int (length (Freqs res) + length (spare env)) \<longrightarrow>
            fst (TextTypesParallel env req b)
              = Responds (JSONResponse
                  (map Some ranked @ take (nat cutoff - length (Freqs res)) (spare env))))"
proof -
  have eq: "TextTypesParallel env req b =
           (case sort_and_cut (Freqs res) (spare env) maxItems of
              Panic msg \<Rightarrow> (Panics msg, b')
            | Returns freqs \<Rightarrow> (Responds (JSONResponse freqs), b'))"
    by (rule TextTypesParallel_completes [OF assms(1-4)])
  have pos: "0 \<le> cutoff" using assms(6) by simp
  show ?thesis
  proof (cases "int (length (Freqs res) + length (spare env)) < cutoff")
    case True
    then have "sort_and_cut (Freqs res) (spare env) maxItems = Panic ''slice bounds out of range''"
      using assms(5) by (simp add: sort_and_cut_def reslice_to_def SliceStable_length)
    with True show ?thesis by (simp add: eq)
  next
    case False
    with pos have sc: "sort_and_cut (Freqs res) (spare env) maxItems
                 = Returns (map Some ranked @ take (nat cutoff - length (Freqs res)) (spare env))"
      using assms(5,6,7)
      by (auto simp: sort_and_cut_def reslice_to_def SliceStable_length Let_def)
    have "length (map Some ranked @ take (nat cutoff - length (Freqs res)) (spare env)) = nat cutoff"
      using False assms(6,7) by (simp add: SliceStable_length)
    moreover have "length (map Some ranked) < nat cutoff"
      using assms(6,7) by (simp add: SliceStable_length)
    ultimately have "map Some ranked @ take (nat cutoff - length (Freqs res)) (spare env) \<noteq> map Some ranked"
      by (metis less_irrefl)
    with False sc show ?thesis by (simp add: eq)
  qed
qed

text \<open>
  The witness: the two shards of the specification's merge example deliver, the merged
  list cat:6, dog:2, bird:4 sits in a backing array of capacity 4, and no \<^verbatim>\<open>maxItems\<close>
  is given, so the cut is at 100: the handler panics.
\<close>

theorem cut_of_short_list_witness:
  "fst (TextTypesParallel
     (sample_env
        (Inr [''/corpora/split/syn/chunk_00.subc'', ''/corpora/split/syn/chunk_01.subc''])
        [(''/corpora/split/syn/chunk_00.subc'',
            Inr (Resolves (\<lparr>Freqs = [item ''cat'' 5, item ''dog'' 2]\<rparr>, None))),
         (''/corpora/split/syn/chunk_01.subc'',
            Inr (Resolves (\<lparr>Freqs = [item ''cat'' 1, item ''bird'' 4]\<rparr>, None)))]
        [None] [])
     (sample_request [(''attr'', [''doc.genre''])]) idle)
   = Panics ''slice bounds out of range''"
proof -
  let ?subs = "[''/corpora/split/syn/chunk_00.subc'', ''/corpora/split/syn/chunk_01.subc'']"
  let ?env = "sample_env (Inr ?subs)
        [(''/corpora/split/syn/chunk_00.subc'',
            Inr (Resolves (\<lparr>Freqs = [item ''cat'' 5, item ''dog'' 2]\<rparr>, None))),
         (''/corpora/split/syn/chunk_01.subc'',
            Inr (Resolves (\<lparr>Freqs = [item ''cat'' 1, item ''bird'' 4]\<rparr>, None)))]
        [None] []"
  let ?req = "sample_request [(''attr'', [''doc.genre''])]"
  let ?res = "\<lparr>Freqs = [item ''cat'' 6, item ''dog'' 2, item ''bird'' 4]\<rparr>"
  let ?b' = "\<lparr>published =
         [\<lparr>Func = ''freqDistrib'',
           Args = FreqArgs \<lparr>CorpusPath = ''/corpora/registry/syn'',
                            SubcPath = ''/corpora/split/syn/chunk_00.subc'',
                            Query = [], Crit = ''doc.genre 0'', Limit = 0,
                            FreqLimit = 1, MaxResults = 0\<rparr>\<rparr>,
          \<lparr>Func = ''freqDistrib'',
           Args = FreqArgs \<lparr>CorpusPath = ''/corpora/registry/syn'',
                            SubcPath = ''/corpora/split/syn/chunk_01.subc'',
                            Query = [], Crit = ''doc.genre 0'', Limit = 0,
                            FreqLimit = 1, MaxResults = 0\<rparr>\<rparr>],
       logged = []\<rparr>"
  have h1: "OpenSplitCorpus ?env (SplitCorporaDir ?env) (GetRegistryPath ?env (Param ?req ''corpusId''))
              = Inr ?subs"
    by (simp add: sample_env_def)
  have h2: "int_param ?req ''flimit'' 1 = Inr 1"
    by (simp add: int_param_def Has_def sample_request_def)
  have h3: "int_param ?req ''maxItems'' 0 = Inr 0"
    by (simp add: int_param_def Has_def sample_request_def)
  have h4: "scatter_gather ?env (DeserializeTextTypesResult ?env)
           (\<lambda>subc. \<lparr>CorpusPath = GetRegistryPath ?env (Param ?req ''corpusId''), SubcPath = subc,
                    Query = Get ?req ''q'', Crit = Get ?req ''attr'' @ '' 0'', Limit = 0,
                    FreqLimit = 1, MaxResults = 0\<rparr>)
           ?subs idle = (Inr (Some ?res), ?b')"
    by (simp add: sample_env_def sample_request_def idle_def Get_def Param_def
        scatter_gather_def json_Marshal_def query_subc_def shard_task_def spec_MergeWith_def
        item_def Let_def)
  have h5: "(100::int) = (if (0::int) = 0 then 100 else 0)" by simp
  have h6: "int (length (Freqs ?res)) < 100" by simp
  have sp: "spare ?env = [None]" by (simp add: sample_env_def)
  from cut_of_short_list [OF h1 h2 h3 h4 h5 h6 refl] sp
  show ?thesis by simp
qed

section \<open>Subcorpus descriptors\<close>

lemma length_le_bytes: "length (le_bytes v) = 8"
  by (simp add: le_bytes_def)

lemma length_bytesBuffer: "length (bytesBuffer f t) = 16"
  by (simp add: bytesBuffer_def PutUint64_def AppendUint64_def length_le_bytes)

lemma take_bytesBuffer: "take 8 (bytesBuffer f t) = le_bytes f"
  by (simp add: bytesBuffer_def PutUint64_def AppendUint64_def length_le_bytes)

lemma drop_bytesBuffer: "drop 8 (bytesBuffer f t) = le_bytes t"
  by (simp add: bytesBuffer_def PutUint64_def AppendUint64_def length_le_bytes)

lemma upt8: "[0..<8] = [0,1,2,3,4,5,6,7::nat]"
  by (simp add: upt_rec)

lemma byte_recompose: "ucast (ucast w :: 8 word) OR push_bit 8 (drop_bit 8 w) = (w :: 64 word)"
proof (rule bit_word_eqI)
  fix n assume n: "n < LENGTH(64)"
  show "bit (ucast (ucast w :: 8 word) OR push_bit 8 (drop_bit 8 w)) n = bit w n"
  proof (cases "n < 8")
    case True
    then show ?thesis by (auto simp: bit_simps)
  next
    case False
    then have "8 + (n - 8) = n" by simp
    with False n show ?thesis by (auto simp: bit_simps)
  qed
qed

lemma byte_step:
  "ucast (ucast (drop_bit n v) :: 8 word) OR push_bit 8 (drop_bit (8 + n) v) = drop_bit n (v :: 64 word)"
  using byte_recompose [of "drop_bit n v"] by (simp add: drop_bit_drop_bit)

lemma drop_bit_64: "drop_bit 64 (v :: 64 word) = 0"
  by (rule bit_word_eqI) (simp add: bit_simps)

lemma Uint64_le_bytes: "Uint64 (le_bytes v) = v"
proof -
  have "Uint64 (le_bytes v) =
    ucast (ucast (drop_bit 0 v) :: 8 word) OR push_bit 8
     (ucast (ucast (drop_bit 8 v) :: 8 word) OR push_bit 8
      (ucast (ucast (drop_bit 16 v) :: 8 word) OR push_bit 8
       (ucast (ucast (drop_bit 24 v) :: 8 word) OR push_bit 8
        (ucast (ucast (drop_bit 32 v) :: 8 word) OR push_bit 8
         (ucast (ucast (drop_bit 40 v) :: 8 word) OR push_bit 8
          (ucast (ucast (drop_bit 48 v) :: 8 word) OR push_bit 8
           (ucast (ucast (drop_bit 56 v) :: 8 word) OR push_bit 8 (drop_bit 64 v))))))))"
    by (simp add: Uint64_def le_bytes_def upt8 drop_bit_64)
  also have "\<dots> = drop_bit 0 v"
    using byte_step [of 56 v] byte_step [of 48 v] byte_step [of 40 v] byte_step [of 32 v]
      byte_step [of 24 v] byte_step [of 16 v] byte_step [of 8 v] byte_step [of 0 v]
    by simp
  finally show ?thesis by simp
qed


lemma unat_le_byte:
  "k < 8 \<Longrightarrow> unat (le_bytes v ! k) = (unat v div 256 ^ k) mod 256"
proof -
  assume k: "k < 8"
  have "le_bytes v ! k = (ucast (drop_bit (8 * k) v) :: 8 word)"
    using k by (simp add: le_bytes_def)
  moreover have "unat (ucast (drop_bit (8 * k) v) :: 8 word) = unat (drop_bit (8 * k) v) mod 256"
    by (simp add: unsigned_ucast_eq take_bit_eq_mod)
  moreover have "unat (drop_bit (8 * k) v) = unat v div 2 ^ (8 * k)"
    by (subst unat_drop_bit_eq) (rule drop_bit_eq_div)
  moreover have "(2::nat) ^ (8 * k) = 256 ^ k"
    by (simp add: power_mult)
  ultimately show ?thesis by simp
qed

lemma os_OpenFile_created:
  "os_OpenFile fault files path = Inr opened \<Longrightarrow> files path = None \<Longrightarrow>
   opened path = Some (RegularFile [])"
  by (auto simp: os_OpenFile_def add_entry_def split: option.splits node.splits)

lemma os_OpenFile_existing:
  "os_OpenFile fault files path = Inr opened \<Longrightarrow> files path = Some (RegularFile old) \<Longrightarrow>
   opened = files"
  by (auto simp: os_OpenFile_def split: option.splits)

lemma file_Write_content:
  "file_Write wfault opened path b = Inr written \<Longrightarrow> opened path = Some (RegularFile old) \<Longrightarrow>
   written = opened(path \<mapsto> RegularFile (b @ drop (length b) old))"
  by (auto simp: file_Write_def split: option.splits)

lemma createSubcorpus_ok:
  assumes "createSubcorpus env files path f t = (None, files')"
  shows "\<exists>opened. os_OpenFile (os_fault env) files path = Inr opened \<and>
          file_Write (write_fault env) opened path (bytesBuffer f t) = Inr files'"
  using assms by (auto simp: createSubcorpus_def split: sum.splits)

lemma createSubcorpus_new:
  assumes "createSubcorpus env files path f t = (None, files')" and "files path = None"
  shows "files' path = Some (RegularFile (bytesBuffer f t))"
proof -
  from createSubcorpus_ok [OF assms(1)] obtain opened where
    o: "os_OpenFile (os_fault env) files path = Inr opened" and
    w: "file_Write (write_fault env) opened path (bytesBuffer f t) = Inr files'" by blast
  from os_OpenFile_created [OF o assms(2)] have "opened path = Some (RegularFile [])" .
  from file_Write_content [OF w this] show ?thesis by simp
qed

lemma createSubcorpus_existing:
  assumes "createSubcorpus env files path f t = (None, files')"
    and "files path = Some (RegularFile old)"
  shows "files' path = Some (RegularFile (bytesBuffer f t @ drop 16 old))"
proof -
  from createSubcorpus_ok [OF assms(1)] obtain opened where
    o: "os_OpenFile (os_fault env) files path = Inr opened" and
    w: "file_Write (write_fault env) opened path (bytesBuffer f t) = Inr files'" by blast
  from os_OpenFile_existing [OF o assms(2)] assms(2) have "opened path = Some (RegularFile old)"
    by simp
  from file_Write_content [OF w this] show ?thesis by (simp add: length_bytesBuffer)
qed

text \<open>
  C4. For every pair of offsets the buffer \<^verbatim>\<open>createSubcorpus\<close> writes has 16 bytes:
  byte \<^verbatim>\<open>k\<close> of the first eight is digit \<^verbatim>\<open>k\<close> of \<^verbatim>\<open>fromIdx\<close> to the base 256 (lowest
  first, the offset read as \<^verbatim>\<open>uint64\<close>), byte \<^verbatim>\<open>8 + k\<close> is digit \<^verbatim>\<open>k\<close> of \<^verbatim>\<open>toIdx\<close>,
  and \<^verbatim>\<open>binary.LittleEndian.Uint64\<close> reads both back. When the call succeeds on a path
  that held nothing, the file's content is exactly that buffer. (On a path that held a
  file already, the buffer replaces the file's first 16 bytes and the rest of the old
  content stays, as the file is opened without truncation.)
\<close>

theorem createSubcorpus_descriptor:
  "length (bytesBuffer fromIdx toIdx) = 16
   \<and> (\<forall>k<8. unat (bytesBuffer fromIdx toIdx ! k) = (unat fromIdx div 256 ^ k) mod 256)
   \<and> (\<forall>k<8. unat (bytesBuffer fromIdx toIdx ! (8 + k)) = (unat toIdx div 256 ^ k) mod 256)
   \<and> Uint64 (take 8 (bytesBuffer fromIdx toIdx)) = fromIdx
   \<and> Uint64 (drop 8 (bytesBuffer fromIdx toIdx)) = toIdx
   \<and> (createSubcorpus env files path fromIdx toIdx = (None, files') \<and> files path = None \<longrightarrow>
        files' path = Some (RegularFile (bytesBuffer fromIdx toIdx)))
   \<and> (createSubcorpus env files path fromIdx toIdx = (None, files') \<and>
      files path = Some (RegularFile old) \<longrightarrow>
        files' path = Some (RegularFile (bytesBuffer fromIdx toIdx @ drop 16 old)))"
proof (intro conjI allI impI)
  show "length (bytesBuffer fromIdx toIdx) = 16" by (rule length_bytesBuffer)
next
  fix k :: nat assume k: "k < 8"
  have "bytesBuffer fromIdx toIdx ! k = take 8 (bytesBuffer fromIdx toIdx) ! k"
    using k by simp
  then show "unat (bytesBuffer fromIdx toIdx ! k) = (unat fromIdx div 256 ^ k) mod 256"
    using k by (simp add: take_bytesBuffer unat_le_byte)
next
  fix k :: nat assume k: "k < 8"
  have "bytesBuffer fromIdx toIdx ! (8 + k) = drop 8 (bytesBuffer fromIdx toIdx) ! k"
    by (simp add: length_bytesBuffer)
  then show "unat (bytesBuffer fromIdx toIdx ! (8 + k)) = (unat toIdx div 256 ^ k) mod 256"
    using k by (simp add: drop_bytesBuffer unat_le_byte)
next
  show "Uint64 (take 8 (bytesBuffer fromIdx toIdx)) = fromIdx"
    by (simp add: take_bytesBuffer Uint64_le_bytes)
next
  show "Uint64 (drop 8 (bytesBuffer fromIdx toIdx)) = toIdx"
    by (simp add: drop_bytesBuffer Uint64_le_bytes)
next
  assume "createSubcorpus env files path fromIdx toIdx = (None, files') \<and> files path = None"
  then show "files' path = Some (RegularFile (bytesBuffer fromIdx toIdx))"
    using createSubcorpus_new by blast
next
  assume "createSubcorpus env files path fromIdx toIdx = (None, files') \<and>
          files path = Some (RegularFile old)"
  then show "files' path = Some (RegularFile (bytesBuffer fromIdx toIdx @ drop 16 old))"
    using createSubcorpus_existing by blast
qed

text \<open>
  The witness: the descriptor of the second chunk, \<^verbatim>\<open>[100000000, 200000000)\<close>, written
  into an empty shard directory.
\<close>

theorem createSubcorpus_descriptor_witness:
  "fst (createSubcorpus (sample_edit_env 0) [''/corpora/split/syn'' \<mapsto> Dir []]
          ''/corpora/split/syn/chunk_01.subc'' 100000000 200000000) = None
   \<and> snd (createSubcorpus (sample_edit_env 0) [''/corpora/split/syn'' \<mapsto> Dir []]
          ''/corpora/split/syn/chunk_01.subc'' 100000000 200000000)
        ''/corpora/split/syn/chunk_01.subc''
      = Some (RegularFile [0, 225, 245, 5, 0, 0, 0, 0, 0, 194, 235, 11, 0, 0, 0, 0])"
proof -
  let ?files = "[''/corpora/split/syn'' \<mapsto> Dir []]"
  let ?path = "''/corpora/split/syn/chunk_01.subc''"
  let ?c = "createSubcorpus (sample_edit_env 0) ?files ?path 100000000 200000000"
  have ok: "fst ?c = None"
    by (simp add: createSubcorpus_def os_OpenFile_def file_Write_def add_entry_def
        parent_of_def name_of_def sample_edit_env_def)
  then have c: "?c = (None, snd ?c)" by (simp add: prod_eq_iff)
  have fresh: "?files ?path = None" by simp
  from createSubcorpus_descriptor
         [of 100000000 200000000 "sample_edit_env 0" ?files ?path "snd ?c"] c fresh
  have "snd ?c ?path = Some (RegularFile (bytesBuffer 100000000 200000000))" by blast
  moreover have "bytesBuffer 100000000 200000000
                 = [0, 225, 245, 5, 0, 0, 0, 0, 0, 194, 235, 11, 0, 0, 0, 0]"
    by (simp add: bytesBuffer_def PutUint64_def AppendUint64_def le_bytes_def upt8)
  ultimately show ?thesis using ok by simp
qed

section \<open>Existing shard sets\<close>

lemma splitCorpusExists_nonempty:
  assumes "files (filepath_Join [dir, filepath_Base corpPath]) = Some (Dir entries)"
    and "entries \<noteq> []"
  shows "splitCorpusExists env files dir corpPath =
           (case os_fault env (filepath_Join [dir, filepath_Base corpPath]) of
              None \<Rightarrow> (True, None)
            | Some err \<Rightarrow> (False, Some (Wrapf ''failed to determine split corpus existence'' err)))"
  using assms
  by (auto simp: splitCorpusExists_def fs_IsDir_def os_ReadDir_def Let_def split: option.splits)

lemma MultisampleCorpusExists_nonempty:
  assumes "files (filepath_Join [dir, filepath_Base corpPath]) = Some (Dir entries)"
    and "entries \<noteq> []"
  shows "MultisampleCorpusExists env files dir corpPath =
           (case os_fault env (filepath_Join [dir, filepath_Base corpPath]) of
              None \<Rightarrow> (True, None)
            | Some err \<Rightarrow>
                (False, Some (Wrapf ''failed to determine multisampled corpus existence'' err)))"
  using assms
  by (auto simp: MultisampleCorpusExists_def fs_IsDir_def os_ReadDir_def Let_def
      split: option.splits)

text \<open>
  C5. When the shard directory of the corpus exists and has at least one entry,
  \<^verbatim>\<open>SplitCorpus\<close> (for the split directory) and \<^verbatim>\<open>MultiSample\<close> (for the multisampled
  directory) answer with status 409 and return with the state as it was: no file is
  created or written, no job is published. The error is the \<^verbatim>\<open>already exists\<close> one, or
  the operating system's when the check itself fails.
\<close>

theorem existing_shard_set_conflict:
  "(fs w (filepath_Join [SplitCorporaDir env,
            filepath_Base (GetRegistryPath env (Param req ''corpusId''))]) = Some (Dir entries)
    \<and> entries \<noteq> [] \<longrightarrow>
      SplitCorpus env req w =
        (Responds (ErrorResponse
           (case os_fault env (filepath_Join [SplitCorporaDir env,
                   filepath_Base (GetRegistryPath env (Param req ''corpusId''))]) of
              None \<Rightarrow> ActionError ''split corpus already exists''
            | Some err \<Rightarrow> Wrapf ''failed to determine split corpus existence'' err)
           StatusConflict), w))
   \<and> (fs w (filepath_Join [MultisampledCorporaDir env,
            filepath_Base (GetRegistryPath env (Param req ''corpusId''))]) = Some (Dir entries)
    \<and> entries \<noteq> [] \<longrightarrow>
      MultiSample env req w =
        (Responds (ErrorResponse
           (case os_fault env (filepath_Join [MultisampledCorporaDir env,
                   filepath_Base (GetRegistryPath env (Param req ''corpusId''))]) of
              None \<Rightarrow> ActionError ''multisampled corpus already exists''
            | Some err \<Rightarrow> Wrapf ''failed to determine multisampled corpus existence'' err)
           StatusConflict), w))"
  by (auto simp: SplitCorpus_def MultiSample_def Let_def splitCorpusExists_nonempty
      MultisampleCorpusExists_nonempty split: option.splits)


text \<open>
  The witness: the corpus \<^verbatim>\<open>syn\<close> has one chunk in the split directory and one sample
  in the multisampled directory.
\<close>

theorem existing_shard_set_conflict_witness:
  "SplitCorpus (sample_edit_env 150000000) (sample_request [])
     (sample_world [''/corpora/split/syn'' \<mapsto> Dir [''chunk_00.subc''],
                    ''/corpora/split/syn/chunk_00.subc'' \<mapsto> RegularFile (bytesBuffer 0 100000000),
                    ''/corpora/multisampled/syn'' \<mapsto> Dir [''sample_00.subc'']])
   = (Responds (ErrorResponse (ActionError ''split corpus already exists'') 409),
      sample_world [''/corpora/split/syn'' \<mapsto> Dir [''chunk_00.subc''],
                    ''/corpora/split/syn/chunk_00.subc'' \<mapsto> RegularFile (bytesBuffer 0 100000000),
                    ''/corpora/multisampled/syn'' \<mapsto> Dir [''sample_00.subc'']])
   \<and> MultiSample (sample_edit_env 150000000) (sample_request [])
     (sample_world [''/corpora/split/syn'' \<mapsto> Dir [''chunk_00.subc''],
                    ''/corpora/split/syn/chunk_00.subc'' \<mapsto> RegularFile (bytesBuffer 0 100000000),
                    ''/corpora/multisampled/syn'' \<mapsto> Dir [''sample_00.subc'']])
   = (Responds (ErrorResponse (ActionError ''multisampled corpus already exists'') 409),
      sample_world [''/corpora/split/syn'' \<mapsto> Dir [''chunk_00.subc''],
                    ''/corpora/split/syn/chunk_00.subc'' \<mapsto> RegularFile (bytesBuffer 0 100000000),
                    ''/corpora/multisampled/syn'' \<mapsto> Dir [''sample_00.subc'']])"
proof -
  let ?env = "sample_edit_env 150000000"
  let ?req = "sample_request []"
  let ?w = "sample_world [''/corpora/split/syn'' \<mapsto> Dir [''chunk_00.subc''],
                    ''/corpora/split/syn/chunk_00.subc'' \<mapsto> RegularFile (bytesBuffer 0 100000000),
                    ''/corpora/multisampled/syn'' \<mapsto> Dir [''sample_00.subc'']]"
  have d1: "filepath_Join [SplitCorporaDir ?env,
              filepath_Base (GetRegistryPath ?env (Param ?req ''corpusId''))] = ''/corpora/split/syn''"
    by (simp add: sample_edit_env_def sample_request_def Param_def filepath_Join_def
        filepath_Base_def)
  have d2: "filepath_Join [MultisampledCorporaDir ?env,
              filepath_Base (GetRegistryPath ?env (Param ?req ''corpusId''))]
            = ''/corpora/multisampled/syn''"
    by (simp add: sample_edit_env_def sample_request_def Param_def filepath_Join_def
        filepath_Base_def)
  have h1: "fs ?w ''/corpora/split/syn'' = Some (Dir [''chunk_00.subc'']) \<and> [''chunk_00.subc''] \<noteq> []"
    by (simp add: sample_world_def)
  have h2: "fs ?w ''/corpora/multisampled/syn'' = Some (Dir [''sample_00.subc''])
            \<and> [''sample_00.subc''] \<noteq> []"
    by (simp add: sample_world_def)
  have f: "os_fault ?env ''/corpora/split/syn'' = None"
          "os_fault ?env ''/corpora/multisampled/syn'' = None"
    by (simp_all add: sample_edit_env_def)
  from existing_shard_set_conflict [of ?w ?env ?req "[''chunk_00.subc'']"] h1 d1 f
  have a: "SplitCorpus ?env ?req ?w
           = (Responds (ErrorResponse (ActionError ''split corpus already exists'') 409), ?w)"
    by (simp add: StatusConflict_def)
  from existing_shard_set_conflict [of ?w ?env ?req "[''sample_00.subc'']"] h2 d2 f
  have b: "MultiSample ?env ?req ?w
           = (Responds (ErrorResponse (ActionError ''multisampled corpus already exists'') 409), ?w)"
    by (simp add: StatusConflict_def)
  from a b show ?thesis by simp
qed

end
